theory Spec2Isabelle
  imports Main
begin

section \<open>JavaScript values and string primitives\<close>

text \<open>
  The embedding follows \<^verbatim>\<open>src/lib/api.ts\<close>. A JavaScript string is a \<^typ>\<open>string\<close>,
  read as the UTF-8 bytes of the text. Case mapping is modelled on the ASCII letters only
  (every other byte is left as it is), so \<open>toLowerCase\<close>, \<open>toUpperCase\<close> and what is built
  on them are those of the code on ASCII text and not beyond; every string that a theorem
  below evaluates is ASCII, and no theorem below is about case mapping in general. A field
  that may be \<^verbatim>\<open>null\<close> or \<^verbatim>\<open>undefined\<close> is a \<^typ>\<open>string option\<close>, and \<open>truthy\<close> is
  JavaScript's truthiness of such a field: present and not the empty string.
\<close>

definition truthy :: "string option \<Rightarrow> bool" where
  "truthy v = (case v of None \<Rightarrow> False | Some s \<Rightarrow> s \<noteq> [])"

text \<open>\<^verbatim>\<open>a || b\<close> on optional strings, and \<^verbatim>\<open>a || 'literal'\<close>.\<close>

definition orElse :: "string option \<Rightarrow> string option \<Rightarrow> string option" where
  "orElse a b = (if truthy a then a else b)"

definition orDefault :: "string option \<Rightarrow> string \<Rightarrow> string" where
  "orDefault a d = (case a of None \<Rightarrow> d | Some s \<Rightarrow> if s = [] then d else s)"

definition upperAlphabet :: string where
  "upperAlphabet = ''ABCDEFGHIJKLMNOPQRSTUVWXYZ''"

definition lowerAlphabet :: string where
  "lowerAlphabet = ''abcdefghijklmnopqrstuvwxyz''"

definition lowerChar :: "char \<Rightarrow> char" where
  "lowerChar c = (case map_of (zip upperAlphabet lowerAlphabet) c of Some d \<Rightarrow> d | None \<Rightarrow> c)"

definition upperChar :: "char \<Rightarrow> char" where
  "upperChar c = (case map_of (zip lowerAlphabet upperAlphabet) c of Some d \<Rightarrow> d | None \<Rightarrow> c)"

definition toLowerCase :: "string \<Rightarrow> string" where
  "toLowerCase s = map lowerChar s"

definition toUpperCase :: "string \<Rightarrow> string" where
  "toUpperCase s = map upperChar s"

fun startsWith :: "string \<Rightarrow> string \<Rightarrow> bool" where
  "startsWith s [] = True"
| "startsWith [] (p # ps) = False"
| "startsWith (c # cs) (p # ps) = (c = p \<and> startsWith cs ps)"

definition endsWith :: "string \<Rightarrow> string \<Rightarrow> bool" where
  "endsWith s p = startsWith (rev s) (rev p)"

text \<open>\<^verbatim>\<open>s.includes(p)\<close>: \<open>p\<close> occurs somewhere in \<open>s\<close>.\<close>

fun str_includes :: "string \<Rightarrow> string \<Rightarrow> bool" where
  "str_includes [] p = (p = [])"
| "str_includes (c # cs) p = (startsWith (c # cs) p \<or> str_includes cs p)"

definition isDigit :: "char \<Rightarrow> bool" where
  "isDigit c = (c \<in> set ''0123456789'')"

text \<open>
  \<^verbatim>\<open>s.replace(/_v\d+$/i, '')\<close>. The pattern is anchored at the end of the string, so the
  only possible match is the longest run of digits that ends the string, when that run is
  not empty and \<^verbatim>\<open>_v\<close> or \<^verbatim>\<open>_V\<close> stands right before it.
\<close>

definition stripVersionSuffix :: "string \<Rightarrow> string" where
  "stripVersionSuffix s =
     (let r = rev s; ds = takeWhile isDigit r in
      case dropWhile isDigit r of
        v # u # pre \<Rightarrow>
          if ds \<noteq> [] \<and> (v = CHR ''v'' \<or> v = CHR ''V'') \<and> u = CHR ''_'' then rev pre else s
      | _ \<Rightarrow> s)"

text \<open>\<^verbatim>\<open>s.replace(/_\d+$/i, '')\<close>, in the same way.\<close>

definition stripNumericSuffix :: "string \<Rightarrow> string" where
  "stripNumericSuffix s =
     (let r = rev s; ds = takeWhile isDigit r in
      case dropWhile isDigit r of
        u # pre \<Rightarrow> if ds \<noteq> [] \<and> u = CHR ''_'' then rev pre else s
      | _ \<Rightarrow> s)"

text \<open>\<^verbatim>\<open>s.replace(/[-_]/g, ' ')\<close>.\<close>

definition separatorToSpace :: "char \<Rightarrow> char" where
  "separatorToSpace c = (if c = CHR ''-'' \<or> c = CHR ''_'' then CHR '' '' else c)"

definition separatorsToSpaces :: "string \<Rightarrow> string" where
  "separatorsToSpaces s = map separatorToSpace s"

text \<open>\<^verbatim>\<open>s.split(' ')\<close> and \<^verbatim>\<open>ws.join(' ')\<close>; the split of the empty string is \<^verbatim>\<open>['']\<close>.\<close>

fun splitSpace :: "string \<Rightarrow> string list" where
  "splitSpace [] = [[]]"
| "splitSpace (c # cs) =
     (if c = CHR '' '' then [] # splitSpace cs
      else (case splitSpace cs of [] \<Rightarrow> [[c]] | w # ws \<Rightarrow> (c # w) # ws))"

fun joinSpace :: "string list \<Rightarrow> string" where
  "joinSpace [] = []"
| "joinSpace [w] = w"
| "joinSpace (w # v # ws) = w @ '' '' @ joinSpace (v # ws)"

text \<open>\<^verbatim>\<open>word.charAt(0).toUpperCase() + word.slice(1).toLowerCase()\<close>.\<close>

definition capitalizeWord :: "string \<Rightarrow> string" where
  "capitalizeWord word = toUpperCase (take 1 word) @ toLowerCase (drop 1 word)"

section \<open>Marketplace display names\<close>

definition formatMarketplaceName :: "string \<Rightarrow> string" where
  "formatMarketplaceName name =
     (if name = [] then ''Unknown''
      else if str_includes (toLowerCase name) ''topaz'' then ''Topaz (Deprecated)''
      else if str_includes (toLowerCase name) ''tradeport'' then ''TradePort''
      else if str_includes (toLowerCase name) ''bluemove'' then ''Bluemove''
      else joinSpace (map capitalizeWord (splitSpace
             (separatorsToSpaces (stripNumericSuffix (stripVersionSuffix name))))))"

section \<open>Image resolution\<close>

definition convertIpfsUrl :: "string \<Rightarrow> string" where
  "convertIpfsUrl url =
     (if url = [] then url
      else if startsWith url ''ipfs://'' then ''https://ipfs.io/ipfs/'' @ drop 7 url
      else url)"

text \<open>
  The \<^verbatim>\<open>cdn_asset_uris\<close> object of the indexer: six nullable string columns.
\<close>

record cdn_asset_uris =
  cdn_image_uri :: "string option"
  raw_image_uri :: "string option"
  cdn_animation_uri :: "string option"
  raw_animation_uri :: "string option"
  asset_uri :: "string option"
  cdn_json_uri :: "string option"

text \<open>
  A linked metadata document comes from an arbitrary server, so each of the five fields that
  the code reads may be missing, a string, or some other JSON value (of which only the
  truthiness matters).
\<close>

datatype json_field = Absent | Str string | NonString bool

record metadata =
  m_image :: json_field
  m_image_url :: json_field
  m_imageUrl :: json_field
  m_animation_url :: json_field
  m_animationUrl :: json_field

text \<open>
  What \<^verbatim>\<open>await fetch(url, ...)\<close> followed by \<^verbatim>\<open>await response.json()\<close> can do:
  the fetch rejects; the response is not \<^verbatim>\<open>ok\<close>; the body is not JSON; the body is
  the JSON value \<^verbatim>\<open>null\<close>; the body is any other JSON value, seen through the five
  fields. The network is a function from the URL to the outcome.
\<close>

datatype fetch_outcome = FetchRejects | HttpError | BodyNotJson | JsonNull | Json metadata

datatype js_error = NetworkError | SyntaxError | TypeError | RangeError

definition fieldTruthy :: "json_field \<Rightarrow> bool" where
  "fieldTruthy v = (case v of Absent \<Rightarrow> False | Str s \<Rightarrow> s \<noteq> [] | NonString b \<Rightarrow> b)"

text \<open>
  \<^verbatim>\<open>return convertIpfsUrl(metadata.f)\<close> for a truthy field: on a value that is not a
  string, \<^verbatim>\<open>url.startsWith\<close> is not a function and the call throws.
\<close>

definition returnConverted :: "json_field \<Rightarrow> js_error + string option" where
  "returnConverted v = (case v of Str s \<Rightarrow> Inr (Some (convertIpfsUrl s)) | _ \<Rightarrow> Inl TypeError)"

text \<open>
  The body of each of the three \<^verbatim>\<open>try\<close> blocks, which differ in the URL only.
  \<open>Inr (Some u)\<close>: the function returns \<open>u\<close>; \<open>Inr None\<close>: control leaves the block at
  its end; \<open>Inl e\<close>: \<open>e\<close> is thrown inside the block.
\<close>

definition imageFromMetadata :: "metadata \<Rightarrow> js_error + string option" where
  "imageFromMetadata m =
     (if fieldTruthy (m_image m) then returnConverted (m_image m)
      else if fieldTruthy (m_image_url m) then returnConverted (m_image_url m)
      else if fieldTruthy (m_imageUrl m) then returnConverted (m_imageUrl m)
      else if fieldTruthy (m_animation_url m) then returnConverted (m_animation_url m)
      else if fieldTruthy (m_animationUrl m) then returnConverted (m_animationUrl m)
      else Inr None)"

definition fetchLinkedJson :: "(string \<Rightarrow> fetch_outcome) \<Rightarrow> string \<Rightarrow> js_error + string option" where
  "fetchLinkedJson fetch url =
     (case fetch url of
        FetchRejects \<Rightarrow> Inl NetworkError
      | HttpError \<Rightarrow> Inr None
      | BodyNotJson \<Rightarrow> Inl SyntaxError
      | JsonNull \<Rightarrow> Inl TypeError
      | Json m \<Rightarrow> imageFromMetadata m)"

text \<open>\<^verbatim>\<open>try { body } catch (error) { console.error(...) }\<close>.\<close>

definition tryCatch :: "js_error + string option \<Rightarrow> js_error + string option" where
  "tryCatch body = (case body of Inl e \<Rightarrow> Inr None | Inr r \<Rightarrow> Inr r)"

definition str :: "string option \<Rightarrow> string" where
  "str v = (case v of None \<Rightarrow> [] | Some s \<Rightarrow> s)"

definition isImageExtension :: "string \<Rightarrow> bool" where
  "isImageExtension uri =
     (endsWith uri ''.jpg'' \<or> endsWith uri ''.jpeg'' \<or> endsWith uri ''.png'' \<or>
      endsWith uri ''.gif'' \<or> endsWith uri ''.webp'' \<or> endsWith uri ''.svg'')"

text \<open>
  \<^verbatim>\<open>getBestImageUrl(cdnAssetUris, tokenName, token_uri)\<close>. The name is used for logging
  only. The three branches of the raw image step return the same value and are one branch
  here. A statement that returns inside a block ends the function; otherwise the next
  statement runs.
\<close>

definition getBestImageUrl ::
  "(string \<Rightarrow> fetch_outcome) \<Rightarrow> cdn_asset_uris option \<Rightarrow> string \<Rightarrow> string option \<Rightarrow> js_error + string"
where
  "getBestImageUrl fetch cdnAssetUris tokenName token_uri =
     (case cdnAssetUris of
        None \<Rightarrow> Inr []
      | Some c \<Rightarrow>
          if truthy (cdn_image_uri c) then Inr (str (cdn_image_uri c))
          else if truthy (raw_image_uri c) then Inr (convertIpfsUrl (str (raw_image_uri c)))
          else if truthy (cdn_animation_uri c) then Inr (str (cdn_animation_uri c))
          else if truthy (raw_animation_uri c) then Inr (convertIpfsUrl (str (raw_animation_uri c)))
          else if truthy (asset_uri c) \<and> isImageExtension (toLowerCase (str (asset_uri c)))
            then Inr (convertIpfsUrl (str (asset_uri c)))
          else
            (case (if truthy (cdn_json_uri c)
                   then tryCatch (fetchLinkedJson fetch (str (cdn_json_uri c)))
                   else Inr None) of
               Inl e \<Rightarrow> Inl e
             | Inr (Some u) \<Rightarrow> Inr u
             | Inr None \<Rightarrow>
            (case (if truthy (asset_uri c) \<and> \<not> truthy (cdn_json_uri c) \<and>
                      endsWith (toLowerCase (str (asset_uri c))) ''.json''
                   then tryCatch (fetchLinkedJson fetch (convertIpfsUrl (str (asset_uri c))))
                   else Inr None) of
               Inl e \<Rightarrow> Inl e
             | Inr (Some u) \<Rightarrow> Inr u
             | Inr None \<Rightarrow>
            (case (if truthy token_uri \<and> (\<not> truthy (asset_uri c) \<or> \<not> truthy (cdn_json_uri c))
                   then tryCatch (fetchLinkedJson fetch (convertIpfsUrl (str token_uri)))
                   else Inr None) of
               Inl e \<Rightarrow> Inl e
             | Inr (Some u) \<Rightarrow> Inr u
             | Inr None \<Rightarrow>
                 if truthy (asset_uri c) \<and> \<not> endsWith (toLowerCase (str (asset_uri c))) ''.json''
                 then Inr (convertIpfsUrl (str (asset_uri c)))
                 else Inr []))))"

section \<open>Upstream records and display records\<close>

text \<open>
  The rows of the two GraphQL queries. A column that the query does not select reads as
  \<^verbatim>\<open>undefined\<close>, a selected column without a value as \<^verbatim>\<open>null\<close>; both are \<open>None\<close>.
  \<^verbatim>\<open>new Date(t).toISOString()\<close> is the function \<open>toISOString\<close> of the runtime: it
  gives the ISO text of the date, or \<open>None\<close> when \<open>t\<close> does not parse as a date and the
  call throws a \<^verbatim>\<open>RangeError\<close>. The price is the integer number of octas; the display
  amount is that number divided by \<open>10^8\<close>, and the record keeps the octas (the currency of
  a price is the constant \<^verbatim>\<open>APT\<close> and is left out). Numbers are integers here and
  doubles in the code; the two agree below \<open>2^53\<close>.
\<close>

record collection_data =
  cd_collection_name :: "string option"
  cd_uri :: "string option"
  cd_creator_address :: "string option"
  cd_description :: "string option"

record token_data =
  td_token_uri :: "string option"
  td_token_name :: "string option"
  td_description :: "string option"
  td_collection_name :: "string option"
  td_creator_address :: "string option"
  td_collection_id :: "string option"
  td_token_properties :: "string option"
  td_cdn_asset_uris :: "cdn_asset_uris option"

record listing =
  l_token_name :: "string option"
  l_token_data_id :: "string option"
  l_seller :: "string option"
  l_price :: "int option"
  l_marketplace :: "string option"
  l_listing_id :: "string option"
  l_last_transaction_timestamp :: "string option"
  l_collection_id :: "string option"
  l_collection_data :: "collection_data option"
  l_current_token_data :: "token_data option"

record ownership =
  o_token_data_id :: "string option"
  o_current_token_data :: "token_data option"
  o_last_transaction_timestamp :: "string option"

text \<open>The \<^verbatim>\<open>NFT\<close> display record; the fields that only one of the two producers sets are optional.\<close>

record nft =
  nft_id :: string
  name :: string
  description :: string
  image_url :: string
  marketplace :: string
  collection_name :: string
  creator_address :: string
  owner_address :: string
  price_octas :: "int option"
  token_properties :: "(string \<times> string) list option"
  created_at :: string
  listing_id :: "string option"
  collection_id :: "string option"
  token_uri :: "string option"
  hasCompleteMetadata :: "bool option"

record listings_result =
  nfts :: "nft list"
  total :: int

definition emptyResult :: listings_result where
  "emptyResult = \<lparr>nfts = [], total = 0\<rparr>"

definition emptyTokenData :: token_data where
  "emptyTokenData = \<lparr>td_token_uri = None, td_token_name = None, td_description = None,
     td_collection_name = None, td_creator_address = None, td_collection_id = None,
     td_token_properties = None, td_cdn_asset_uris = None\<rparr>"

definition emptyCollectionData :: collection_data where
  "emptyCollectionData = \<lparr>cd_collection_name = None, cd_uri = None, cd_creator_address = None,
     cd_description = None\<rparr>"

text \<open>
  The decoded response of a GraphQL call: the transport call throws; the status is not a
  success; the body is not JSON; the body is \<^verbatim>\<open>null\<close>; or the body is an object, of
  which the code reads whether \<^verbatim>\<open>errors\<close> is truthy and the \<^verbatim>\<open>data\<close> member. The row
  list under \<^verbatim>\<open>data\<close> may be missing, a truthy value that is not an array, or an array.
\<close>

datatype 'row rows_field = Missing | NotAnArray | Rows "'row list"

record 'row gql_data =
  rows :: "'row rows_field"
  aggregate_count :: "int option"

datatype 'row gql_response =
    TransportFailure
  | HttpFailure
  | BodyUnparsable
  | BodyNull
  | Body bool "'row gql_data option"

text \<open>The interpolated parts of the two query texts.\<close>

record listings_query =
  q_limit :: int
  q_offset :: int
  q_marketplaceFilter :: string
  q_collection :: "string option"
  q_orderPart :: string

record ownerships_query =
  oq_owner :: string
  oq_collection :: "string option"
  oq_limit :: int
  oq_offset :: int
  oq_orderPart :: string

text \<open>The query parameters of \<^verbatim>\<open>fetchActiveListings\<close>, and the object that is serialized into the cache key.\<close>

record listing_params =
  p_page :: "int option"
  p_pageSize :: "int option"
  p_collection :: "string option"
  p_marketplace :: "string option"
  p_sortOrder :: "string option"
  p_orderByClause :: "string option"
  p_hideIncompleteMetadata :: "bool option"
  p_skipCache :: "bool option"

record cache_params =
  cp_page :: int
  cp_pageSize :: int
  cp_collection :: "string option"
  cp_marketplace :: "string option"
  cp_sortOrder :: string
  cp_hideIncompleteMetadata :: bool

text \<open>
  Everything outside the program: the serializer \<^verbatim>\<open>JSON.stringify\<close> on the cache
  parameters, the two indexer endpoints, the network behind \<^verbatim>\<open>fetch\<close>, the clock at
  the cache check and at the cache write, the string that
  \<^verbatim>\<open>Math.random().toString(36).substring(7)\<close> gives for the \<open>i\<close>-th record, and the date
  functions.
\<close>

record env =
  stringify :: "cache_params \<Rightarrow> string"
  listingsUpstream :: "listings_query \<Rightarrow> listing gql_response"
  ownershipsUpstream :: "ownerships_query \<Rightarrow> ownership gql_response"
  fetch :: "string \<Rightarrow> fetch_outcome"
  nowAtLookup :: int
  nowAtStore :: int
  randomId :: "nat \<Rightarrow> string"
  toISOString :: "string option \<Rightarrow> string option"
  nowISOString :: string
  jsonParse :: "string \<Rightarrow> (string \<times> string) list option"

section \<open>Listings cache\<close>

record cache_entry =
  timestamp :: int
  data :: listings_result
  params :: string

type_synonym listings_cache = "string \<Rightarrow> cache_entry option"

definition CACHE_EXPIRATION :: int where
  "CACHE_EXPIRATION = 5 * 60 * 1000"

text \<open>
  \<^verbatim>\<open>invalidateListingsCache(specificParams?)\<close>. \<open>None\<close> is the call without an argument;
  \<open>Some p\<close> is a call with an object, which is truthy. The serializer is the runtime's.
\<close>

definition invalidateListingsCache :: "('p \<Rightarrow> string) \<Rightarrow> 'p option \<Rightarrow> listings_cache \<Rightarrow> listings_cache" where
  "invalidateListingsCache serialize specificParams cache =
     (case specificParams of
        Some p \<Rightarrow>
          (let cacheKey = serialize p in
           if cache cacheKey \<noteq> None then cache(cacheKey := None) else cache)
      | None \<Rightarrow> (\<lambda>key. None))"

section \<open>Normalizing listings\<close>

text \<open>
  \<^verbatim>\<open>encodeURIComponent\<close> keeps the letters, the digits and \<^verbatim>\<open>- _ . ! ~ * ' ( )\<close>,
  and writes every other byte of the UTF-8 text as \<^verbatim>\<open>%XX\<close>.
\<close>

definition unreserved :: "char \<Rightarrow> bool" where
  "unreserved c =
     (c \<in> set upperAlphabet \<or> c \<in> set lowerAlphabet \<or> isDigit c \<or>
      c \<in> set ''-_.!~*()'' \<or> c = CHR 0x27)"

definition hexDigit :: "nat \<Rightarrow> char" where
  "hexDigit n = ''0123456789ABCDEF'' ! n"

definition percentEncode :: "char \<Rightarrow> string" where
  "percentEncode c =
     [CHR ''%'', hexDigit ((of_char c :: nat) div 16), hexDigit ((of_char c :: nat) mod 16)]"

definition encodeURIComponent :: "string \<Rightarrow> string" where
  "encodeURIComponent s = concat (map (\<lambda>c. if unreserved c then [c] else percentEncode c) s)"

definition placeholderUrl :: "string \<Rightarrow> string" where
  "placeholderUrl text = ''https://via.placeholder.com/500x500?text='' @ encodeURIComponent text"

text \<open>A value inside a template literal: \<^verbatim>\<open>null\<close> prints as \<^verbatim>\<open>null\<close>.\<close>

definition inTemplate :: "string option \<Rightarrow> string" where
  "inTemplate v = (case v of None \<Rightarrow> ''null'' | Some s \<Rightarrow> s)"

definition parseTokenProperties :: "env \<Rightarrow> string option \<Rightarrow> (string \<times> string) list option" where
  "parseTokenProperties e properties =
     (if \<not> truthy properties then None else jsonParse e (str properties))"

text \<open>The filter in front of the mapping: Topaz listings are all kept, the others need a token name.\<close>

definition keepListing :: "listing \<Rightarrow> bool" where
  "keepListing l =
     (if truthy (l_marketplace l) \<and> str_includes (toLowerCase (str (l_marketplace l))) ''topaz''
      then True
      else truthy (orElse (l_token_name l)
             (case l_current_token_data l of None \<Rightarrow> None | Some t \<Rightarrow> td_token_name t)))"

text \<open>\<^verbatim>\<open>listing.current_token_data || {}\<close>.\<close>

definition tokenDataOf :: "listing \<Rightarrow> token_data" where
  "tokenDataOf l = (case l_current_token_data l of None \<Rightarrow> emptyTokenData | Some t \<Rightarrow> t)"

text \<open>
  The body of the asynchronous mapping function, for the record at position \<open>i\<close>. The
  only expression of the object literal that can throw is the date conversion of a
  timestamp that is there; the promise of the row is then rejected.
\<close>

definition listingToNFT :: "env \<Rightarrow> nat \<Rightarrow> listing \<Rightarrow> js_error + nft" where
  "listingToNFT e i l =
     (let tokenData = tokenDataOf l;
          collectionData = (case l_collection_data l of None \<Rightarrow> emptyCollectionData | Some c \<Rightarrow> c)
      in case (if td_cdn_asset_uris tokenData \<noteq> None
               then getBestImageUrl (fetch e) (td_cdn_asset_uris tokenData)
                      (str (orElse (l_token_name l) (td_token_name tokenData)))
                      (td_token_uri tokenData)
               else Inr []) of
           Inl err \<Rightarrow> Inl err
         | Inr resolved \<Rightarrow>
             (let imageUrl = (if resolved = []
                              then placeholderUrl (orDefault (l_token_name l) (randomId e i))
                              else resolved);
                  hasCompleteName = truthy (orElse (l_token_name l) (td_token_name tokenData));
                  hasDescription = truthy (td_description tokenData);
                  hasImage = (imageUrl \<noteq> [])
              in case (if truthy (l_last_transaction_timestamp l)
                       then toISOString e (l_last_transaction_timestamp l)
                       else Some (nowISOString e)) of
                   None \<Rightarrow> Inl RangeError
                 | Some createdAt \<Rightarrow>
                     Inr \<lparr>nft_id = orDefault (l_token_data_id l) (''listing-'' @ inTemplate (l_listing_id l)),
                      name = orDefault (orElse (l_token_name l) (td_token_name tokenData))
                               (''NFT #'' @ orDefault (l_listing_id l) ''Unknown''),
                      description = orDefault (orElse (td_description tokenData) (cd_description collectionData))
                               ''No description available'',
                      image_url = imageUrl,
                      marketplace = formatMarketplaceName (orDefault (l_marketplace l) ''Unknown''),
                      collection_name = orDefault (cd_collection_name collectionData) ''Unknown Collection'',
                      creator_address = orDefault (cd_creator_address collectionData) [],
                      owner_address = orDefault (l_seller l) [],
                      price_octas = Some (case l_price l of None \<Rightarrow> 0 | Some octas \<Rightarrow> octas),
                      token_properties = parseTokenProperties e (td_token_properties tokenData),
                      created_at = createdAt,
                      listing_id = Some (orDefault (l_listing_id l) []),
                      collection_id = Some (orDefault (orElse (td_collection_id tokenData) (l_collection_id l)) []),
                      token_uri = Some (orDefault (orElse (td_token_uri tokenData) (cd_uri collectionData)) []),
                      hasCompleteMetadata = Some (hasCompleteName \<and> hasDescription \<and> hasImage)\<rparr>))"

text \<open>\<^verbatim>\<open>await Promise.all(promises)\<close>: the values in order, or the first rejection.\<close>

fun promiseAll :: "(js_error + 'a) list \<Rightarrow> js_error + 'a list" where
  "promiseAll [] = Inr []"
| "promiseAll (Inl err # rs) = Inl err"
| "promiseAll (Inr v # rs) = (case promiseAll rs of Inl err \<Rightarrow> Inl err | Inr vs \<Rightarrow> Inr (v # vs))"

text \<open>\<^verbatim>\<open>xs.slice(start, stop)\<close> on integers: a negative index counts from the end.\<close>

definition jsSlice :: "'a list \<Rightarrow> int \<Rightarrow> int \<Rightarrow> 'a list" where
  "jsSlice xs start stop =
     (let n = int (length xs);
          k = (if start < 0 then max (n + start) 0 else min start n);
          f = (if stop < 0 then max (n + stop) 0 else min stop n)
      in take (nat (f - k)) (drop (nat k) xs))"

section \<open>fetchActiveListings\<close>

definition withDefault :: "'a option \<Rightarrow> 'a \<Rightarrow> 'a" where
  "withDefault v d = (case v of None \<Rightarrow> d | Some x \<Rightarrow> x)"

text \<open>The destructuring with defaults, and the object behind the cache key.\<close>

definition cacheParams :: "listing_params \<Rightarrow> cache_params" where
  "cacheParams ps =
     \<lparr>cp_page = withDefault (p_page ps) 1,
      cp_pageSize = withDefault (p_pageSize ps) 10,
      cp_collection = p_collection ps,
      cp_marketplace = p_marketplace ps,
      cp_sortOrder = withDefault (p_sortOrder ps) ''timestamp_desc'',
      cp_hideIncompleteMetadata = withDefault (p_hideIncompleteMetadata ps) False\<rparr>"

definition orderPartOf :: "string \<Rightarrow> string" where
  "orderPartOf sortOrder =
     (if sortOrder \<noteq> [] then
        (if sortOrder = ''timestamp_desc'' then ''order_by: {last_transaction_timestamp: desc}''
         else if sortOrder = ''timestamp_asc'' then ''order_by: {last_transaction_timestamp: asc}''
         else if sortOrder = ''price_desc'' then ''order_by: {price: desc}''
         else if sortOrder = ''price_asc'' then ''order_by: {price: asc}''
         else if sortOrder = ''version_desc'' then ''order_by: {last_transaction_version: desc}''
         else if sortOrder = ''version_asc'' then ''order_by: {last_transaction_version: asc}''
         else ''order_by: {last_transaction_timestamp: desc}'')
      else ''order_by: {last_transaction_timestamp: desc}'')"

definition marketplaceFilterOf :: "string option \<Rightarrow> string" where
  "marketplaceFilterOf m =
     (if truthy m then
        (if toLowerCase (str m) = ''topaz'' then ''marketplace: {_eq: \"topaz\"}''
         else if str_includes (toLowerCase (str m)) ''tradeport''
           then ''marketplace: {_in: [\"tradeport_v1\", \"tradeport_v2\"]}''
         else ''marketplace: {_ilike: \"'' @ str m @ ''\"}'')
      else [])"

text \<open>The query that is sent: limit, offset, and the filter and order clauses.\<close>

definition listingsQuery :: "cache_params \<Rightarrow> listings_query" where
  "listingsQuery cp =
     (let offset = (cp_page cp - 1) * cp_pageSize cp;
          queryLimit = (if truthy (cp_marketplace cp) then cp_pageSize cp * 5
                        else if cp_hideIncompleteMetadata cp then cp_pageSize cp * 3
                        else cp_pageSize cp);
          queryOffset = (if cp_hideIncompleteMetadata cp \<or> truthy (cp_marketplace cp) then 0 else offset)
      in \<lparr>q_limit = queryLimit, q_offset = queryOffset,
          q_marketplaceFilter = marketplaceFilterOf (cp_marketplace cp),
          q_collection = (if truthy (cp_collection cp) then cp_collection cp else None),
          q_orderPart = orderPartOf (cp_sortOrder cp)\<rparr>)"

text \<open>
  \<^verbatim>\<open>await Promise.all(listings.filter(...).map(async ...))\<close>: the display records of the
  rows that pass the filter, in order.
\<close>

definition normalizeListings :: "env \<Rightarrow> listing list \<Rightarrow> js_error + nft list" where
  "normalizeListings e listings =
     promiseAll (map (\<lambda>(i, l). listingToNFT e i l) (enumerate 0 (filter keepListing listings)))"

text \<open>
  What follows a successful response with the row array \<open>listings\<close>: normalize, filter by
  completeness, paginate, and build the result.
\<close>

definition processListings ::
  "env \<Rightarrow> cache_params \<Rightarrow> listing list \<Rightarrow> int option \<Rightarrow> js_error + listings_result"
where
  "processListings e cp listings count =
     (let totalCount = (case count of None \<Rightarrow> int (length listings)
                        | Some c \<Rightarrow> if c = 0 then int (length listings) else c)
      in case normalizeListings e listings of
           Inl err \<Rightarrow> Inl err
         | Inr ns \<Rightarrow>
             (let filteredNfts = (if cp_hideIncompleteMetadata cp
                                  then filter (\<lambda>n. hasCompleteMetadata n = Some True) ns else ns);
                  startIndex = (cp_page cp - 1) * cp_pageSize cp;
                  paginatedNfts = (if cp_hideIncompleteMetadata cp
                                   then jsSlice filteredNfts startIndex (startIndex + cp_pageSize cp)
                                   else filteredNfts)
              in Inr \<lparr>nfts = paginatedNfts,
                      total = (if cp_hideIncompleteMetadata cp then int (length filteredNfts) else totalCount)\<rparr>))"

text \<open>
  The \<^verbatim>\<open>try\<close> block: the value is what it returns together with the cache it leaves, or the
  exception that ends it. Only the last statements of the block write the cache.
\<close>

definition tryFetchListings ::
  "env \<Rightarrow> listings_cache \<Rightarrow> cache_params \<Rightarrow> js_error + (listings_result \<times> listings_cache)"
where
  "tryFetchListings e cache cp =
     (case listingsUpstream e (listingsQuery cp) of
        TransportFailure \<Rightarrow> Inl NetworkError
      | HttpFailure \<Rightarrow> Inr (emptyResult, cache)
      | BodyUnparsable \<Rightarrow> Inl SyntaxError
      | BodyNull \<Rightarrow> Inl TypeError
      | Body errors d \<Rightarrow>
          if errors then Inr (emptyResult, cache)
          else (case d of
                  None \<Rightarrow> Inr (emptyResult, cache)
                | Some dd \<Rightarrow>
                    (case rows dd of
                       Missing \<Rightarrow> Inr (emptyResult, cache)
                     | NotAnArray \<Rightarrow> Inl TypeError
                     | Rows listings \<Rightarrow>
                         (case processListings e cp listings (aggregate_count dd) of
                            Inl err \<Rightarrow> Inl err
                          | Inr result \<Rightarrow>
                              Inr (result,
                                   cache(stringify e cp \<mapsto>
                                     \<lparr>timestamp = nowAtStore e, data = result,
                                      params = stringify e cp\<rparr>))))))"

text \<open>The part of the function after the cache check: the \<^verbatim>\<open>try\<close> block and its \<^verbatim>\<open>catch\<close>.\<close>

definition fetchListingsFresh :: "env \<Rightarrow> listings_cache \<Rightarrow> cache_params \<Rightarrow> listings_result \<times> listings_cache" where
  "fetchListingsFresh e cache cp =
     (case tryFetchListings e cache cp of
        Inl err \<Rightarrow> (emptyResult, cache)
      | Inr rc \<Rightarrow> rc)"

text \<open>
  The cache check at the head of the function: the payload of the entry under the key when
  the cache is not skipped, the entry is there and it is younger than the expiration.
\<close>

definition cacheLookup :: "env \<Rightarrow> listings_cache \<Rightarrow> listing_params \<Rightarrow> listings_result option" where
  "cacheLookup e cache ps =
     (if \<not> withDefault (p_skipCache ps) False then
        (case cache (stringify e (cacheParams ps)) of
           None \<Rightarrow> None
         | Some cacheEntry \<Rightarrow>
             if nowAtLookup e - timestamp cacheEntry < CACHE_EXPIRATION
             then Some (data cacheEntry) else None)
      else None)"

definition fetchActiveListings :: "env \<Rightarrow> listings_cache \<Rightarrow> listing_params \<Rightarrow> listings_result \<times> listings_cache" where
  "fetchActiveListings e cache ps =
     (case cacheLookup e cache ps of
        Some cached \<Rightarrow> (cached, cache)
      | None \<Rightarrow> fetchListingsFresh e cache (cacheParams ps))"

section \<open>fetchNFTs\<close>







section \<open>Even distribution of marketplace shares\<close>

text \<open>
  \<^verbatim>\<open>marketplaceDistribution\<close> is an object from display name to percentage; it is an
  association list in insertion order, and an assignment to a name that is already there
  replaces its value. (JavaScript lists the keys that read as integers first; nothing
  below depends on the order of the entries.)
\<close>

type_synonym distribution = "(string \<times> int) list"

fun assign :: "string \<Rightarrow> int \<Rightarrow> distribution \<Rightarrow> distribution" where
  "assign k v [] = [(k, v)]"
| "assign k v ((k', v') # d) = (if k' = k then (k, v) # d else (k', v') # assign k v d)"

text \<open>The \<^verbatim>\<open>forEach\<close> of \<^verbatim>\<open>distributeEvenly\<close>, from position \<open>index\<close> on; \<open>n\<close> is the length of the whole list.\<close>

fun distributeFrom :: "int \<Rightarrow> int \<Rightarrow> int \<Rightarrow> string option list \<Rightarrow> distribution \<Rightarrow> distribution" where
  "distributeFrom n base index [] d = d"
| "distributeFrom n base index (item # items) d =
     distributeFrom n base (index + 1) items
       (if truthy item
        then assign (formatMarketplaceName (str item))
               (if index = n - 1 then 100 - base * (n - 1) else base) d
        else d)"

text \<open>
  \<^verbatim>\<open>distributeEvenly(marketplaces)\<close>, on the \<^verbatim>\<open>marketplace\<close> members of the rows; it
  is called on a list that is not empty, so \<^verbatim>\<open>Math.floor(100 / length)\<close> is the integer
  quotient.
\<close>

definition distributeEvenly :: "string option list \<Rightarrow> distribution \<Rightarrow> distribution" where
  "distributeEvenly marketplaces d =
     (let n = int (length marketplaces); basePercentPerMarketplace = 100 div n
      in distributeFrom n basePercentPerMarketplace 0 marketplaces d)"

definition percentages :: "distribution \<Rightarrow> int list" where
  "percentages d = map snd d"

section \<open>Failure kinds\<close>

text \<open>
  The responses on which a GraphQL call has failed: the transport call throws, the status
  is not a success, the payload carries \<^verbatim>\<open>errors\<close>, or the payload does not have the
  shape of a result (no JSON, \<^verbatim>\<open>null\<close>, no \<^verbatim>\<open>data\<close>, no row array under it).
\<close>

definition failedResponse :: "'row gql_response \<Rightarrow> bool" where
  "failedResponse r =
     (case r of
        Body errors d \<Rightarrow>
          errors \<or> (case d of None \<Rightarrow> True
                     | Some dd \<Rightarrow> (case rows dd of Rows rs \<Rightarrow> False | _ \<Rightarrow> True))
      | _ \<Rightarrow> True)"

section \<open>Predicates of the statements about image resolution\<close>

text \<open>None of the four image and animation fields of the record is set.\<close>

definition noImageFields :: "cdn_asset_uris \<Rightarrow> bool" where
  "noImageFields c =
     (\<not> truthy (cdn_image_uri c) \<and> \<not> truthy (raw_image_uri c) \<and>
      \<not> truthy (cdn_animation_uri c) \<and> \<not> truthy (raw_animation_uri c))"

text \<open>
  A fetch of a linked document that gives no image: it fails, or the document has no
  truthy image field, or the first truthy one is not a string.
\<close>

definition noImageFrom :: "fetch_outcome \<Rightarrow> bool" where
  "noImageFrom r =
     (case r of
        Json m \<Rightarrow> (case imageFromMetadata m of Inr (Some u) \<Rightarrow> False | _ \<Rightarrow> True)
      | _ \<Rightarrow> True)"

section \<open>Rows whose dates parse\<close>

text \<open>
  The date conversion of a listing row does not throw: the row has no timestamp, or its
  timestamp parses. The conversion of an ownership row is made whatever the timestamp is.
\<close>

definition listingDateParses :: "env \<Rightarrow> listing \<Rightarrow> bool" where
  "listingDateParses e l =
     (if truthy (l_last_transaction_timestamp l)
      then toISOString e (l_last_transaction_timestamp l) \<noteq> None else True)"


section \<open>Concrete inputs\<close>

text \<open>
  A small world on which the theorems below are instantiated: three listing rows, the
  metadata documents behind three URLs, and a runtime.
\<close>

definition noUris :: cdn_asset_uris where
  "noUris = \<lparr>cdn_image_uri = None, raw_image_uri = None, cdn_animation_uri = None,
     raw_animation_uri = None, asset_uri = None, cdn_json_uri = None\<rparr>"

definition noMetadata :: metadata where
  "noMetadata = \<lparr>m_image = Absent, m_image_url = Absent, m_imageUrl = Absent,
     m_animation_url = Absent, m_animationUrl = Absent\<rparr>"

definition bareListing :: listing where
  "bareListing = \<lparr>l_token_name = None, l_token_data_id = None, l_seller = None,
     l_price = None, l_marketplace = None, l_listing_id = None,
     l_last_transaction_timestamp = None, l_collection_id = None,
     l_collection_data = None, l_current_token_data = None\<rparr>"

text \<open>A complete row: name, description and an asset URI with an image extension.\<close>

definition catListing :: listing where
  "catListing = bareListing
     \<lparr>l_token_name := Some ''Cool Cat #1'', l_marketplace := Some ''wapal_v2'',
      l_listing_id := Some ''17'',
      l_current_token_data := Some (emptyTokenData
        \<lparr>td_description := Some ''A cat'',
         td_cdn_asset_uris := Some (noUris\<lparr>asset_uri := Some ''ipfs://QmCat/cat.PNG''\<rparr>)\<rparr>)\<rparr>"

text \<open>A row with a name and a linked JSON document, and no description.\<close>

definition dogListing :: listing where
  "dogListing = bareListing
     \<lparr>l_token_name := Some ''Dog'', l_marketplace := Some ''wapal_v2'',
      l_current_token_data := Some (emptyTokenData
        \<lparr>td_cdn_asset_uris := Some (noUris\<lparr>cdn_json_uri := Some ''https://cdn.example/dog.json''\<rparr>)\<rparr>)\<rparr>"

text \<open>A row whose name stands in the token data only, with no image source at all.\<close>

definition bobListing :: listing where
  "bobListing = bareListing
     \<lparr>l_marketplace := Some ''wapal_v2'',
      l_current_token_data := Some (emptyTokenData
        \<lparr>td_token_name := Some ''Bob'', td_description := Some ''A builder''\<rparr>)\<rparr>"

definition exampleFetch :: "string \<Rightarrow> fetch_outcome" where
  "exampleFetch url =
     (if url = ''https://cdn.example/dog.json''
        then Json (noMetadata\<lparr>m_image_url := Str ''ipfs://QmDog''\<rparr>)
      else if url = ''https://a.example/token.json''
        then Json (noMetadata\<lparr>m_image := Str ''https://a.example/token.png''\<rparr>)
      else if url = ''https://a.example/both.json''
        then Json (noMetadata\<lparr>m_image := Str ''https://a.example/first.png'',
                              m_image_url := Str ''https://a.example/second.png''\<rparr>)
      else FetchRejects)"

definition exampleStringify :: "cache_params \<Rightarrow> string" where
  "exampleStringify cp =
     str (cp_marketplace cp) @ ''/'' @ cp_sortOrder cp @
     (if cp_hideIncompleteMetadata cp then ''/complete'' else ''/all'')"

definition exampleOwnership :: ownership where
  "exampleOwnership = \<lparr>o_token_data_id = Some ''0xabc'',
     o_current_token_data = Some (emptyTokenData\<lparr>td_token_name := Some ''Bob''\<rparr>),
     o_last_transaction_timestamp = Some ''2025-05-01T10:00:00''\<rparr>"

text \<open>
  A date conversion: \<^verbatim>\<open>null\<close> is the epoch, the text \<^verbatim>\<open>not a date\<close> does not parse,
  and every other text stands for its own ISO form.
\<close>

definition exampleToISOString :: "string option \<Rightarrow> string option" where
  "exampleToISOString ts =
     (case ts of
        None \<Rightarrow> Some ''1970-01-01T00:00:00.000Z''
      | Some s \<Rightarrow> if s = ''not a date'' then None else Some s)"

definition exampleEnv :: env where
  "exampleEnv =
     \<lparr>stringify = exampleStringify,
      listingsUpstream = (\<lambda>q. Body False
         (Some \<lparr>rows = Rows [catListing, dogListing, bobListing], aggregate_count = Some 3\<rparr>)),
      ownershipsUpstream = (\<lambda>q. Body False
         (Some \<lparr>rows = Rows [exampleOwnership], aggregate_count = None\<rparr>)),
      fetch = exampleFetch,
      nowAtLookup = 1000,
      nowAtStore = 2000,
      randomId = (\<lambda>i. ''k3x9q2''),
      toISOString = exampleToISOString,
      nowISOString = ''2026-01-01T00:00:00.000Z'',
      jsonParse = (\<lambda>s. None)\<rparr>"

definition noParams :: listing_params where
  "noParams = \<lparr>p_page = None, p_pageSize = None, p_collection = None, p_marketplace = None,
     p_sortOrder = None, p_orderByClause = None, p_hideIncompleteMetadata = None,
     p_skipCache = None\<rparr>"

definition emptyCache :: listings_cache where
  "emptyCache = (\<lambda>key. None)"

text \<open>The same world a little under and exactly five minutes after the cache write, with the indexer down.\<close>

definition laterEnv :: env where
  "laterEnv = exampleEnv\<lparr>nowAtLookup := 301999, listingsUpstream := (\<lambda>q. HttpFailure)\<rparr>"

definition staleEnv :: env where
  "staleEnv = exampleEnv\<lparr>nowAtLookup := 302000, listingsUpstream := (\<lambda>q. HttpFailure)\<rparr>"

definition twoEntryCache :: listings_cache where
  "twoEntryCache = emptyCache
     (''/timestamp_desc/all'' \<mapsto>
        \<lparr>timestamp = 5, data = emptyResult, params = ''/timestamp_desc/all''\<rparr>,
      ''/timestamp_desc/complete'' \<mapsto>
        \<lparr>timestamp = 7, data = emptyResult, params = ''/timestamp_desc/complete''\<rparr>)"

text \<open>The display records of the three rows.\<close>

definition catNFT :: nft where
  "catNFT = \<lparr>nft_id = ''listing-17'', name = ''Cool Cat #1'', description = ''A cat'',
     image_url = ''https://ipfs.io/ipfs/QmCat/cat.PNG'', marketplace = ''Wapal'',
     collection_name = ''Unknown Collection'', creator_address = [], owner_address = [],
     price_octas = Some 0, token_properties = None, created_at = ''2026-01-01T00:00:00.000Z'',
     listing_id = Some ''17'', collection_id = Some [], token_uri = Some [],
     hasCompleteMetadata = Some True\<rparr>"

definition dogNFT :: nft where
  "dogNFT = \<lparr>nft_id = ''listing-null'', name = ''Dog'', description = ''No description available'',
     image_url = ''https://ipfs.io/ipfs/QmDog'', marketplace = ''Wapal'',
     collection_name = ''Unknown Collection'', creator_address = [], owner_address = [],
     price_octas = Some 0, token_properties = None, created_at = ''2026-01-01T00:00:00.000Z'',
     listing_id = Some [], collection_id = Some [], token_uri = Some [],
     hasCompleteMetadata = Some False\<rparr>"

definition bobNFT :: nft where
  "bobNFT = \<lparr>nft_id = ''listing-null'', name = ''Bob'', description = ''A builder'',
     image_url = ''https://via.placeholder.com/500x500?text=k3x9q2'', marketplace = ''Wapal'',
     collection_name = ''Unknown Collection'', creator_address = [], owner_address = [],
     price_octas = Some 0, token_properties = None, created_at = ''2026-01-01T00:00:00.000Z'',
     listing_id = Some [], collection_id = Some [], token_uri = Some [],
     hasCompleteMetadata = Some True\<rparr>"



text \<open>A row with a name of its own and nothing else.\<close>

definition emuListing :: listing where
  "emuListing = bareListing\<lparr>l_token_name := Some ''Emu #2''\<rparr>"






text \<open>The payload of the three rows, and the cache after it was stored at clock 2000.\<close>

definition examplePayload :: listings_result where
  "examplePayload = \<lparr>nfts = [catNFT, dogNFT, bobNFT], total = 3\<rparr>"

definition storedCache :: listings_cache where
  "storedCache = emptyCache
     (''/timestamp_desc/all'' \<mapsto>
        \<lparr>timestamp = 2000, data = examplePayload, params = ''/timestamp_desc/all''\<rparr>)"



section \<open>Evaluation rules and helper lemmas\<close>

lemmas string_defs = toLowerCase_def toUpperCase_def lowerChar_def upperChar_def
  upperAlphabet_def lowerAlphabet_def isDigit_def endsWith_def

lemmas format_defs = formatMarketplaceName_def stripVersionSuffix_def stripNumericSuffix_def
  separatorsToSpaces_def separatorToSpace_def capitalizeWord_def

lemma format_tradeport_v1: "formatMarketplaceName ''tradeport_v1'' = ''TradePort''"
  by (simp add: format_defs string_defs)

lemma format_tradeport_v2: "formatMarketplaceName ''tradeport_v2'' = ''TradePort''"
  by (simp add: format_defs string_defs)

lemma format_wapal: "formatMarketplaceName ''wapal'' = ''Wapal''"
  by (simp add: format_defs string_defs)

lemma getBestImageUrl_returns: "\<exists>u. getBestImageUrl f c n t = Inr u"
  by (auto simp: getBestImageUrl_def tryCatch_def split: option.splits sum.splits)

lemma listingToNFT_returns:
  assumes "listingDateParses e l"
  shows "\<exists>n. listingToNFT e i l = Inr n"
proof -
  let ?td = "tokenDataOf l"
  obtain u where u: "getBestImageUrl (fetch e) (td_cdn_asset_uris ?td)
      (str (orElse (l_token_name l) (td_token_name ?td))) (td_token_uri ?td) = Inr u"
    using getBestImageUrl_returns by blast
  from assms obtain createdAt
    where c: "(if truthy (l_last_transaction_timestamp l)
               then toISOString e (l_last_transaction_timestamp l)
               else Some (nowISOString e)) = Some createdAt"
    by (auto simp: listingDateParses_def split: if_splits)
  show ?thesis
    unfolding listingToNFT_def Let_def u c by (simp split: if_splits)
qed





lemma processListings_rejects:
  "normalizeListings e ls = Inl err \<Longrightarrow> processListings e cp ls count = Inl err"
  by (simp add: processListings_def Let_def)

lemma processListings_returns:
  "normalizeListings e ls = Inr ns \<Longrightarrow> \<exists>r. processListings e cp ls count = Inr r"
  by (simp add: processListings_def Let_def)

lemma tryFetchListings_rows:
  assumes "listingsUpstream e (listingsQuery cp) =
             Body False (Some \<lparr>rows = Rows ls, aggregate_count = count\<rparr>)"
  shows "tryFetchListings e cache cp =
     (case processListings e cp ls count of
        Inl err \<Rightarrow> Inl err
      | Inr result \<Rightarrow>
          Inr (result, cache(stringify e cp \<mapsto>
                 \<lparr>timestamp = nowAtStore e, data = result, params = stringify e cp\<rparr>)))"
  using assms by (simp add: tryFetchListings_def)

lemmas js_defs = truthy_def str_def orElse_def orDefault_def withDefault_def inTemplate_def

lemmas image_defs = getBestImageUrl_def isImageExtension_def convertIpfsUrl_def tryCatch_def
  fetchLinkedJson_def imageFromMetadata_def returnConverted_def fieldTruthy_def

lemmas encode_defs = placeholderUrl_def encodeURIComponent_def unreserved_def percentEncode_def
  hexDigit_def

lemma format_wapal_v2: "formatMarketplaceName ''wapal_v2'' = ''Wapal''"
  by (simp add: format_defs string_defs)

lemma env_simps:
  "fetch exampleEnv = exampleFetch" "randomId exampleEnv i = ''k3x9q2''"
  "nowISOString exampleEnv = ''2026-01-01T00:00:00.000Z''" "jsonParse exampleEnv s = None"
  "stringify exampleEnv = exampleStringify" "nowAtStore exampleEnv = 2000"
  "nowAtLookup exampleEnv = 1000"
  by (simp_all add: exampleEnv_def)

lemma cat_image:
  "getBestImageUrl exampleFetch (Some (noUris\<lparr>asset_uri := Some ''ipfs://QmCat/cat.PNG''\<rparr>)) n t =
     Inr ''https://ipfs.io/ipfs/QmCat/cat.PNG''"
  by (simp add: image_defs js_defs string_defs noUris_def)

lemma dog_image:
  "getBestImageUrl exampleFetch (Some (noUris\<lparr>cdn_json_uri := Some ''https://cdn.example/dog.json''\<rparr>)) n None =
     Inr ''https://ipfs.io/ipfs/QmDog''"
  by (simp add: image_defs js_defs string_defs noUris_def exampleFetch_def noMetadata_def)

lemma cat_nft: "listingToNFT exampleEnv i catListing = Inr catNFT"
  by (simp add: listingToNFT_def catListing_def bareListing_def tokenDataOf_def emptyTokenData_def emptyCollectionData_def
      cat_image env_simps js_defs format_wapal_v2 parseTokenProperties_def catNFT_def)

lemma dog_nft: "listingToNFT exampleEnv i dogListing = Inr dogNFT"
  by (simp add: listingToNFT_def dogListing_def bareListing_def tokenDataOf_def emptyTokenData_def emptyCollectionData_def
      dog_image env_simps js_defs format_wapal_v2 parseTokenProperties_def dogNFT_def)

lemma bob_nft: "listingToNFT exampleEnv i bobListing = Inr bobNFT"
  by (simp add: listingToNFT_def bobListing_def bareListing_def tokenDataOf_def emptyTokenData_def emptyCollectionData_def
      env_simps js_defs format_wapal_v2 parseTokenProperties_def bobNFT_def encode_defs string_defs)

lemma keep_examples: "keepListing catListing" "keepListing dogListing" "keepListing bobListing"
  by (simp_all add: keepListing_def catListing_def dogListing_def bobListing_def bareListing_def
      emptyTokenData_def js_defs string_defs)

lemma example_normalized:
  "normalizeListings exampleEnv [catListing, dogListing, bobListing] = Inr [catNFT, dogNFT, bobNFT]"
  by (simp add: normalizeListings_def keep_examples enumerate_eq_zip cat_nft dog_nft bob_nft)

lemma jsSlice_sublist: "set (jsSlice xs a b) \<subseteq> set xs"
  by (auto simp: jsSlice_def Let_def dest: in_set_takeD in_set_dropD)



lemma tryCatch_noImage: "noImageFrom (f url) \<Longrightarrow> tryCatch (fetchLinkedJson f url) = Inr None"
  by (auto simp: noImageFrom_def tryCatch_def fetchLinkedJson_def
      split: fetch_outcome.splits sum.splits option.splits)

lemma tryCatch_image:
  "f url = Json m \<Longrightarrow> imageFromMetadata m = Inr (Some u) \<Longrightarrow>
   tryCatch (fetchLinkedJson f url) = Inr (Some u)"
  by (simp add: tryCatch_def fetchLinkedJson_def)

lemma imageFromMetadata_image_url:
  "\<not> fieldTruthy (m_image m) \<Longrightarrow> m_image_url m = Str u \<Longrightarrow> u \<noteq> [] \<Longrightarrow>
   imageFromMetadata m = Inr (Some (convertIpfsUrl u))"
  by (simp add: imageFromMetadata_def returnConverted_def fieldTruthy_def)

lemma truthy_Some: "truthy (Some a) = (a \<noteq> [])"
  by (simp add: truthy_def)

lemma startsWith_take: "startsWith s p = (take (length p) s = p)"
  by (induction s p rule: startsWith.induct) auto

lemma json_not_image:
  assumes "endsWith s ''.json''"
  shows "\<not> isImageExtension s"
proof -
  from assms have five: "take (length ''.json'') (rev s) = ''nosj.''"
    by (simp add: endsWith_def startsWith_take)
  have "take (length ''.jpg'') (rev s) = take (length ''.jpg'') (take (length ''.json'') (rev s))"
    by simp
  also have "\<dots> = ''nosj''"
    by (simp only: five) simp
  finally have four: "take (length ''.jpg'') (rev s) = ''nosj''" .
  have "\<not> startsWith (rev s) (rev ''.jpg'')" "\<not> startsWith (rev s) (rev ''.png'')"
    "\<not> startsWith (rev s) (rev ''.gif'')" "\<not> startsWith (rev s) (rev ''.svg'')"
    using four by (simp_all add: startsWith_take)
  moreover have "\<not> startsWith (rev s) (rev ''.jpeg'')" "\<not> startsWith (rev s) (rev ''.webp'')"
    using five by (simp_all add: startsWith_take)
  ultimately show ?thesis
    by (simp add: endsWith_def isImageExtension_def)
qed

lemma endsWith_json_nonempty: "endsWith (toLowerCase a) ''.json'' \<Longrightarrow> a \<noteq> []"
  by (auto simp: endsWith_def toLowerCase_def)

lemma fetch_missing: "exampleFetch ''https://cdn.example/missing.json'' = FetchRejects"
  by (simp add: exampleFetch_def)

lemma fetch_gone: "exampleFetch ''https://a.example/gone.json'' = FetchRejects"
  by (simp add: exampleFetch_def)

lemma fetch_token:
  "exampleFetch ''https://a.example/token.json'' =
     Json (noMetadata\<lparr>m_image := Str ''https://a.example/token.png''\<rparr>)"
  by (simp add: exampleFetch_def)

lemma token_image:
  "imageFromMetadata (noMetadata\<lparr>m_image := Str ''https://a.example/token.png''\<rparr>) =
     Inr (Some ''https://a.example/token.png'')"
  by (simp add: imageFromMetadata_def noMetadata_def fieldTruthy_def returnConverted_def
      convertIpfsUrl_def)

lemma noUris_noImageFields:
  "noImageFields (noUris\<lparr>asset_uri := x, cdn_json_uri := y\<rparr>)"
  "noImageFields (noUris\<lparr>cdn_json_uri := y\<rparr>)"
  "noImageFields (noUris\<lparr>asset_uri := x\<rparr>)"
  by (simp_all add: noImageFields_def noUris_def truthy_def)

section \<open>Marketplace names and the even split\<close>

text \<open>
  C8 (marketplace name derivation is idempotent). The name \<^verbatim>\<open>_v1\<close> is not empty and
  holds none of the vendor fragments, so the version suffix is stripped and nothing is
  left: the function returns the empty string. On the empty string the guard at the head
  of the function answers \<^verbatim>\<open>Unknown\<close>. Formatting twice therefore differs from
  formatting once.
\<close>

theorem formatMarketplaceName_twice_differs:
  "formatMarketplaceName ''_v1'' = [] \<and>
   formatMarketplaceName (formatMarketplaceName ''_v1'') = ''Unknown''"
  by (simp add: format_defs string_defs)

text \<open>
  C7 (the even split sums to 100). The rows \<^verbatim>\<open>tradeport_v1\<close>, \<^verbatim>\<open>tradeport_v2\<close> and
  \<^verbatim>\<open>wapal\<close> have the two display names \<^verbatim>\<open>TradePort\<close> and \<^verbatim>\<open>Wapal\<close>. The
  second assignment to \<^verbatim>\<open>TradePort\<close> replaces the first, so the distribution has two
  entries, 33 and 34, and sums to 67.
\<close>

theorem distributeEvenly_shared_display_name:
  "distributeEvenly [Some ''tradeport_v1'', Some ''tradeport_v2'', Some ''wapal''] [] =
     [(''TradePort'', 33), (''Wapal'', 34)] \<and>
   sum_list (percentages
     (distributeEvenly [Some ''tradeport_v1'', Some ''tradeport_v2'', Some ''wapal''] [])) = 67"
  by (simp add: distributeEvenly_def percentages_def truthy_def str_def
      format_tradeport_v1 format_tradeport_v2 format_wapal)

section \<open>The listings cache\<close>

lemma example_upstream:
  "listingsUpstream exampleEnv q =
     Body False (Some \<lparr>rows = Rows [catListing, dogListing, bobListing], aggregate_count = Some 3\<rparr>)"
  by (simp add: exampleEnv_def)

lemma example_key_all: "exampleStringify (cacheParams noParams) = ''/timestamp_desc/all''"
  by (simp add: exampleStringify_def cacheParams_def noParams_def withDefault_def str_def)

lemma example_processed:
  "processListings exampleEnv (cacheParams noParams) [catListing, dogListing, bobListing] (Some 3) =
     Inr examplePayload"
proof -
  have cp: "\<not> cp_hideIncompleteMetadata (cacheParams noParams)"
    by (simp add: cacheParams_def noParams_def withDefault_def)
  show ?thesis
    by (simp add: processListings_def example_normalized cp examplePayload_def)
qed

lemma example_try:
  "tryFetchListings exampleEnv emptyCache (cacheParams noParams) = Inr (examplePayload, storedCache)"
  by (simp add: tryFetchListings_rows [OF example_upstream] example_processed env_simps
      example_key_all storedCache_def)

lemma emptyCache_miss: "cacheLookup e emptyCache ps = None"
  by (simp add: cacheLookup_def emptyCache_def)

lemma example_fetch_all:
  "fetchActiveListings exampleEnv emptyCache noParams = (examplePayload, storedCache)"
  by (simp add: fetchActiveListings_def emptyCache_miss fetchListingsFresh_def example_try)

text \<open>
  C3 (cache reuse iff fresh). A first call gets a row array from the indexer, its
  \<^verbatim>\<open>try\<close> block runs to the end and returns \<open>payload\<close>, leaving the cache \<open>cache1\<close>: the
  payload then stands in \<open>cache1\<close> under the serialized parameters, with the clock of the
  write. A later call that does not skip the cache and serializes to the same key returns
  exactly \<open>payload\<close>, and leaves the cache as it is, while the clock at the check minus
  the clock at the write is under the expiration of 300000 ms; from 300000 ms on the
  check finds nothing and the call is the fresh fetch.
\<close>

theorem cache_reuse_iff_fresh:
  assumes first: "listingsUpstream e0 (listingsQuery cp) =
            Body False (Some \<lparr>rows = Rows ls, aggregate_count = count\<rparr>)"
      and stored: "tryFetchListings e0 cache0 cp = Inr (payload, cache1)"
      and key: "stringify e (cacheParams ps) = stringify e0 cp"
      and noskip: "\<not> withDefault (p_skipCache ps) False"
  shows "CACHE_EXPIRATION = 300000 \<and>
     cache1 (stringify e0 cp) =
       Some \<lparr>timestamp = nowAtStore e0, data = payload, params = stringify e0 cp\<rparr> \<and>
     fetchListingsFresh e0 cache0 cp = (payload, cache1) \<and>
     (nowAtLookup e - nowAtStore e0 < CACHE_EXPIRATION \<longrightarrow>
        fetchActiveListings e cache1 ps = (payload, cache1)) \<and>
     (CACHE_EXPIRATION \<le> nowAtLookup e - nowAtStore e0 \<longrightarrow>
        cacheLookup e cache1 ps = None \<and>
        fetchActiveListings e cache1 ps = fetchListingsFresh e cache1 (cacheParams ps))"
proof -
  from stored have c1: "cache1 = cache0(stringify e0 cp \<mapsto>
      \<lparr>timestamp = nowAtStore e0, data = payload, params = stringify e0 cp\<rparr>)"
    unfolding tryFetchListings_rows [OF first] by (auto split: sum.splits)
  have fresh: "fetchListingsFresh e0 cache0 cp = (payload, cache1)"
    using stored by (simp add: fetchListingsFresh_def)
  have entry: "cache1 (stringify e0 cp) =
       Some \<lparr>timestamp = nowAtStore e0, data = payload, params = stringify e0 cp\<rparr>"
    by (simp add: c1)
  have hit: "nowAtLookup e - nowAtStore e0 < CACHE_EXPIRATION \<longrightarrow>
        fetchActiveListings e cache1 ps = (payload, cache1)"
    using key noskip entry by (simp add: fetchActiveListings_def cacheLookup_def)
  have miss: "CACHE_EXPIRATION \<le> nowAtLookup e - nowAtStore e0 \<longrightarrow>
        cacheLookup e cache1 ps = None \<and>
        fetchActiveListings e cache1 ps = fetchListingsFresh e cache1 (cacheParams ps)"
    using key noskip entry by (simp add: fetchActiveListings_def cacheLookup_def)
  have "CACHE_EXPIRATION = 300000"
    by (simp add: CACHE_EXPIRATION_def)
  with entry fresh hit miss show ?thesis
    by blast
qed

theorem cache_reuse_iff_fresh_witness:
  "fetchListingsFresh exampleEnv emptyCache (cacheParams noParams) = (examplePayload, storedCache) \<and>
   storedCache ''/timestamp_desc/all'' =
     Some \<lparr>timestamp = 2000, data = examplePayload, params = ''/timestamp_desc/all''\<rparr> \<and>
   nowAtLookup laterEnv - 2000 = 299999 \<and>
   fetchActiveListings laterEnv storedCache noParams = (examplePayload, storedCache) \<and>
   nowAtLookup staleEnv - 2000 = 300000 \<and>
   cacheLookup staleEnv storedCache noParams = None \<and>
   fetchActiveListings staleEnv storedCache noParams = (emptyResult, storedCache)"
proof -
  let ?cp = "cacheParams noParams"
  have noskip: "\<not> withDefault (p_skipCache noParams) False"
    by (simp add: noParams_def withDefault_def)
  have k1: "stringify laterEnv (cacheParams noParams) = stringify exampleEnv ?cp"
    by (simp add: laterEnv_def exampleEnv_def)
  have k2: "stringify staleEnv (cacheParams noParams) = stringify exampleEnv ?cp"
    by (simp add: staleEnv_def exampleEnv_def)
  have key: "stringify exampleEnv ?cp = ''/timestamp_desc/all''"
    by (simp add: env_simps example_key_all)
  have clock: "nowAtStore exampleEnv = 2000"
    by (simp add: env_simps)
  have n1: "nowAtLookup laterEnv - 2000 = 299999" and n2: "nowAtLookup staleEnv - 2000 = 300000"
    by (simp_all add: laterEnv_def staleEnv_def exampleEnv_def)
  have t1: "nowAtLookup laterEnv - nowAtStore exampleEnv < CACHE_EXPIRATION"
    and t2: "CACHE_EXPIRATION \<le> nowAtLookup staleEnv - nowAtStore exampleEnv"
    by (simp_all add: clock n1 n2 CACHE_EXPIRATION_def)
  have down: "fetchListingsFresh staleEnv storedCache ?cp = (emptyResult, storedCache)"
    by (simp add: fetchListingsFresh_def tryFetchListings_def staleEnv_def exampleEnv_def)
  from cache_reuse_iff_fresh [OF example_upstream example_try k1 noskip] t1
  have fresh: "fetchListingsFresh exampleEnv emptyCache ?cp = (examplePayload, storedCache)"
    and entry: "storedCache (stringify exampleEnv ?cp) =
       Some \<lparr>timestamp = nowAtStore exampleEnv, data = examplePayload,
             params = stringify exampleEnv ?cp\<rparr>"
    and hit: "fetchActiveListings laterEnv storedCache noParams = (examplePayload, storedCache)"
    by blast+
  from cache_reuse_iff_fresh [OF example_upstream example_try k2 noskip] t2
  have miss: "cacheLookup staleEnv storedCache noParams = None"
    and again: "fetchActiveListings staleEnv storedCache noParams =
       fetchListingsFresh staleEnv storedCache ?cp"
    by blast+
  from fresh entry [unfolded key clock] n1 hit n2 miss again [unfolded down] show ?thesis
    by blast
qed

text \<open>
  C4 (invalidation). Without an argument every key is gone afterwards, so every cache
  check misses. With a parameter object the entry under its serialization is gone, and
  the entry under any other key is what it was.
\<close>

theorem invalidateListingsCache_effect:
  "invalidateListingsCache ser None cache k = None \<and>
   cacheLookup e (invalidateListingsCache ser None cache) ps = None \<and>
   invalidateListingsCache ser (Some p) cache (ser p) = None \<and>
   (k \<noteq> ser p \<longrightarrow> invalidateListingsCache ser (Some p) cache k = cache k)"
  by (simp add: invalidateListingsCache_def cacheLookup_def Let_def)

theorem invalidateListingsCache_effect_witness:
  "invalidateListingsCache exampleStringify (Some (cacheParams noParams)) twoEntryCache
     ''/timestamp_desc/all'' = None \<and>
   invalidateListingsCache exampleStringify (Some (cacheParams noParams)) twoEntryCache
     ''/timestamp_desc/complete'' =
     Some \<lparr>timestamp = 7, data = emptyResult, params = ''/timestamp_desc/complete''\<rparr> \<and>
   invalidateListingsCache exampleStringify None twoEntryCache ''/timestamp_desc/complete'' = None"
  using invalidateListingsCache_effect [of exampleStringify twoEntryCache
      "''/timestamp_desc/complete''" exampleEnv noParams "cacheParams noParams"]
  by (simp add: example_key_all twoEntryCache_def)

text \<open>
  C6 (failures give the empty result and leave the cache alone). When the response to the
  query of the call is a failure of any of the four kinds, the fetch part of the function
  returns \<^verbatim>\<open>{ nfts: [], total: 0 }\<close> and the cache it was given; so does the whole
  function whenever the cache check misses, and in every case the cache after the call is
  the cache before it.
\<close>

theorem fetch_failure_gives_empty_result:
  assumes "failedResponse (listingsUpstream e (listingsQuery (cacheParams ps)))"
  shows "emptyResult = \<lparr>nfts = [], total = 0\<rparr> \<and>
     fetchListingsFresh e cache (cacheParams ps) = (emptyResult, cache) \<and>
     (cacheLookup e cache ps = None \<longrightarrow> fetchActiveListings e cache ps = (emptyResult, cache)) \<and>
     snd (fetchActiveListings e cache ps) = cache"
proof -
  have fresh: "fetchListingsFresh e cache (cacheParams ps) = (emptyResult, cache)"
    using assms
    by (auto simp: failedResponse_def fetchListingsFresh_def tryFetchListings_def
        split: gql_response.splits option.splits rows_field.splits)
  then show ?thesis
    by (simp add: fetchActiveListings_def emptyResult_def split: option.splits)
qed

theorem fetch_failure_gives_empty_result_witness:
  "fetchActiveListings staleEnv emptyCache noParams = (\<lparr>nfts = [], total = 0\<rparr>, emptyCache)"
proof -
  have f: "failedResponse (listingsUpstream staleEnv (listingsQuery (cacheParams noParams)))"
    by (simp add: staleEnv_def exampleEnv_def failedResponse_def)
  have l: "cacheLookup staleEnv emptyCache noParams = None"
    by (simp add: cacheLookup_def emptyCache_def)
  show ?thesis
    using fetch_failure_gives_empty_result [OF f, of emptyCache] l by simp
qed

section \<open>Pagination and the completeness flag\<close>

lemma fetchActiveListings_miss:
  "cacheLookup e cache ps = None \<Longrightarrow>
   fetchActiveListings e cache ps = fetchListingsFresh e cache (cacheParams ps)"
  by (simp add: fetchActiveListings_def)



lemma fetchListingsFresh_rejects:
  assumes "listingsUpstream e (listingsQuery cp) =
             Body False (Some \<lparr>rows = Rows ls, aggregate_count = count\<rparr>)"
      and "normalizeListings e ls = Inl err"
  shows "fetchListingsFresh e cache cp = (emptyResult, cache)"
  by (simp add: fetchListingsFresh_def tryFetchListings_rows [OF assms(1)]
      processListings_rejects [OF assms(2)])








lemma orDefault_nonempty: "d \<noteq> [] \<Longrightarrow> orDefault a d \<noteq> []"
  by (simp add: orDefault_def split: option.splits)

lemma placeholderUrl_nonempty: "placeholderUrl t \<noteq> []"
  by (simp add: placeholderUrl_def)

lemma listingToNFT_fields:
  assumes "listingToNFT e i l = Inr n"
  shows "hasCompleteMetadata n =
           Some (truthy (orElse (l_token_name l) (td_token_name (tokenDataOf l))) \<and>
                 truthy (td_description (tokenDataOf l)) \<and> image_url n \<noteq> [])"
    and "image_url n \<noteq> []" and "name n \<noteq> []" and "description n \<noteq> []"
  using assms
  by (auto simp: listingToNFT_def Let_def orDefault_nonempty placeholderUrl_nonempty
      split: sum.splits if_splits option.splits)

lemma promiseAll_member:
  "promiseAll rs = Inr vs \<Longrightarrow> v \<in> set vs \<Longrightarrow> Inr v \<in> set rs"
proof (induction rs arbitrary: vs)
  case Nil
  then show ?case by simp
next
  case (Cons r rs)
  then show ?case
    by (cases r) (auto split: sum.splits)
qed

lemma normalizeListings_member:
  assumes "normalizeListings e ls = Inr ns" and "n \<in> set ns"
  shows "\<exists>i l. l \<in> set ls \<and> keepListing l \<and> listingToNFT e i l = Inr n"
proof -
  from promiseAll_member [OF assms [unfolded normalizeListings_def]]
  obtain i l where "(i, l) \<in> set (enumerate 0 (filter keepListing ls))" "listingToNFT e i l = Inr n"
    by auto
  then have "i < length (filter keepListing ls)" "filter keepListing ls ! i = l"
    and n: "listingToNFT e i l = Inr n"
    by (simp_all add: in_set_enumerate_eq)
  then have "l \<in> set (filter keepListing ls)"
    using nth_mem by blast
  with n show ?thesis by auto
qed

lemma processListings_subset:
  assumes "normalizeListings e ls = Inr ns" and "processListings e cp ls count = Inr r"
  shows "set (nfts r) \<subseteq> set ns"
proof (cases "cp_hideIncompleteMetadata cp")
  case True
  let ?start = "(cp_page cp - 1) * cp_pageSize cp"
  have "nfts r = jsSlice (filter (\<lambda>n. hasCompleteMetadata n = Some True) ns)
      ?start (?start + cp_pageSize cp)"
    using assms True by (auto simp: processListings_def Let_def)
  then show ?thesis
    using jsSlice_sublist [of "filter (\<lambda>n. hasCompleteMetadata n = Some True) ns"
        ?start "?start + cp_pageSize cp"]
    by auto
next
  case False
  then show ?thesis
    using assms by (auto simp: processListings_def Let_def)
qed

text \<open>
  C9 (the completeness flag), as the code has it. Every record that a call to the indexer
  returns is the display record of a row \<open>l\<close> of the response, and its flag is true
  exactly when the row has a token name (its own or the one of its token data), its token
  data has a description, and the image URL of the record is not empty. The name, the
  description and the image URL of the record itself are never empty: they fall back to
  \<^verbatim>\<open>NFT #...\<close>, \<^verbatim>\<open>No description available\<close> and the placeholder.
\<close>

theorem hasCompleteMetadata_upstream_fields:
  assumes up: "listingsUpstream e (listingsQuery (cacheParams ps)) =
                 Body False (Some \<lparr>rows = Rows ls, aggregate_count = count\<rparr>)"
      and miss: "cacheLookup e cache ps = None"
      and mem: "n \<in> set (nfts (fst (fetchActiveListings e cache ps)))"
  shows "\<exists>i l. l \<in> set ls \<and> listingToNFT e i l = Inr n \<and>
     (hasCompleteMetadata n = Some True \<longleftrightarrow>
        truthy (orElse (l_token_name l) (td_token_name (tokenDataOf l))) \<and>
        truthy (td_description (tokenDataOf l)) \<and> image_url n \<noteq> []) \<and>
     name n \<noteq> [] \<and> description n \<noteq> [] \<and> image_url n \<noteq> []"
proof -
  let ?cp = "cacheParams ps"
  have whole: "fst (fetchActiveListings e cache ps) = fst (fetchListingsFresh e cache ?cp)"
    using miss by (simp add: fetchActiveListings_miss)
  show ?thesis
  proof (cases "normalizeListings e ls")
    case (Inl err)
    from mem show ?thesis
      unfolding whole fetchListingsFresh_rejects [OF up Inl] by (simp add: emptyResult_def)
  next
    case (Inr ns)
    from processListings_returns [OF Inr]
    obtain r where r: "processListings e ?cp ls count = Inr r"
      by blast
    have "fst (fetchListingsFresh e cache ?cp) = r"
      by (simp add: fetchListingsFresh_def tryFetchListings_rows [OF up] r)
    with mem whole processListings_subset [OF Inr r] have "n \<in> set ns" by auto
    from normalizeListings_member [OF Inr this]
    obtain i l where l: "l \<in> set ls" "listingToNFT e i l = Inr n" by blast
    from listingToNFT_fields [OF l(2)] l show ?thesis
      by (intro exI [of _ i] exI [of _ l]) simp
  qed
qed

text \<open>
  C9 as it is stated fails on the row \<open>dogListing\<close>, which has a name and an image and
  no description: the name, the description and the image URL of its record are all
  non-empty, and the flag is false.
\<close>

theorem hasCompleteMetadata_record_fields_counterexample:
  "nfts (fst (fetchActiveListings exampleEnv emptyCache noParams)) = [catNFT, dogNFT, bobNFT] \<and>
   name dogNFT = ''Dog'' \<and> description dogNFT = ''No description available'' \<and>
   image_url dogNFT = ''https://ipfs.io/ipfs/QmDog'' \<and> hasCompleteMetadata dogNFT = Some False"
  by (simp add: example_fetch_all examplePayload_def dogNFT_def)

theorem hasCompleteMetadata_upstream_fields_witness:
  "hasCompleteMetadata dogNFT \<noteq> Some True \<and> \<not> truthy (td_description (tokenDataOf dogListing))"
proof -
  have mem: "dogNFT \<in> set (nfts (fst (fetchActiveListings exampleEnv emptyCache noParams)))"
    by (simp add: example_fetch_all examplePayload_def)
  have miss: "cacheLookup exampleEnv emptyCache noParams = None"
    by (simp add: cacheLookup_def emptyCache_def)
  have d: "\<not> truthy (td_description (tokenDataOf dogListing))"
    by (simp add: tokenDataOf_def dogListing_def bareListing_def emptyTokenData_def truthy_def)
  from hasCompleteMetadata_upstream_fields [OF example_upstream miss mem] show ?thesis
    using d by (auto simp: dogNFT_def)
qed

section \<open>Wallet queries\<close>













section \<open>Image resolution\<close>

text \<open>
  C1 (image resolution), as the code has it. (1) A record with none of the four image and
  animation fields and an asset URI that has an image extension resolves to that URI after
  the \<^verbatim>\<open>ipfs://\<close> rewrite. (2) A record with nothing but a JSON-metadata URI, which
  is a CDN JSON URI, an asset URI that ends in \<^verbatim>\<open>.json\<close> (fetched after the
  \<^verbatim>\<open>ipfs://\<close> rewrite), or the token URI (fetched after the rewrite too), whose
  document has no truthy \<^verbatim>\<open>image\<close> and a string \<^verbatim>\<open>image_url\<close> that is not empty,
  resolves to the rewritten \<^verbatim>\<open>image_url\<close>. (3) A
  record with no field at all resolves to the empty string, and for a row whose resolution
  is empty, or that has no \<^verbatim>\<open>cdn_asset_uris\<close>, the image URL of the display record is
  the placeholder URL of \<^verbatim>\<open>listing.token_name\<close>, or of the random identifier when the
  row has no token name of its own; with such a name, that name is the display name and
  the URL ends in its URL encoding.
\<close>

theorem image_resolution_postcondition:
  "(noImageFields c \<and> asset_uri c = Some a \<and> a \<noteq> [] \<and> isImageExtension (toLowerCase a) \<longrightarrow>
      getBestImageUrl f (Some c) nm t = Inr (convertIpfsUrl a)) \<and>
   convertIpfsUrl a = (if startsWith a ''ipfs://'' then ''https://ipfs.io/ipfs/'' @ drop 7 a else a) \<and>
   (noImageFields c \<and> \<not> truthy (asset_uri c) \<and> cdn_json_uri c = Some j \<and> j \<noteq> [] \<and>
    f j = Json m \<and> \<not> fieldTruthy (m_image m) \<and> m_image_url m = Str u \<and> u \<noteq> [] \<longrightarrow>
      getBestImageUrl f (Some c) nm t = Inr (convertIpfsUrl u)) \<and>
   (noImageFields c \<and> \<not> truthy (cdn_json_uri c) \<and> asset_uri c = Some a \<and>
    endsWith (toLowerCase a) ''.json'' \<and>
    f (convertIpfsUrl a) = Json m \<and> \<not> fieldTruthy (m_image m) \<and> m_image_url m = Str u \<and> u \<noteq> [] \<longrightarrow>
      getBestImageUrl f (Some c) nm t = Inr (convertIpfsUrl u)) \<and>
   (noImageFields c \<and> \<not> truthy (asset_uri c) \<and> \<not> truthy (cdn_json_uri c) \<and>
    t = Some tu \<and> tu \<noteq> [] \<and>
    f (convertIpfsUrl tu) = Json m \<and> \<not> fieldTruthy (m_image m) \<and> m_image_url m = Str u \<and> u \<noteq> [] \<longrightarrow>
      getBestImageUrl f (Some c) nm t = Inr (convertIpfsUrl u)) \<and>
   (noImageFields c \<and> \<not> truthy (asset_uri c) \<and> \<not> truthy (cdn_json_uri c) \<and> \<not> truthy t \<longrightarrow>
      getBestImageUrl f (Some c) nm t = Inr []) \<and>
   (listingToNFT e i l = Inr n \<and>
    (td_cdn_asset_uris (tokenDataOf l) = None \<or>
     getBestImageUrl (fetch e) (td_cdn_asset_uris (tokenDataOf l))
       (str (orElse (l_token_name l) (td_token_name (tokenDataOf l))))
       (td_token_uri (tokenDataOf l)) = Inr []) \<longrightarrow>
      image_url n = placeholderUrl (orDefault (l_token_name l) (randomId e i)) \<and>
      (truthy (l_token_name l) \<longrightarrow>
         name n = str (l_token_name l) \<and>
         image_url n = ''https://via.placeholder.com/500x500?text='' @ encodeURIComponent (name n)))"
proof (intro conjI impI)
  assume "noImageFields c \<and> asset_uri c = Some a \<and> a \<noteq> [] \<and> isImageExtension (toLowerCase a)"
  then show "getBestImageUrl f (Some c) nm t = Inr (convertIpfsUrl a)"
    by (simp add: getBestImageUrl_def noImageFields_def truthy_Some str_def)
next
  show "convertIpfsUrl a = (if startsWith a ''ipfs://'' then ''https://ipfs.io/ipfs/'' @ drop 7 a else a)"
    by (simp add: convertIpfsUrl_def)
next
  assume h: "noImageFields c \<and> \<not> truthy (asset_uri c) \<and> cdn_json_uri c = Some j \<and> j \<noteq> [] \<and>
    f j = Json m \<and> \<not> fieldTruthy (m_image m) \<and> m_image_url m = Str u \<and> u \<noteq> []"
  then have "tryCatch (fetchLinkedJson f j) = Inr (Some (convertIpfsUrl u))"
    using tryCatch_image [of f j m] imageFromMetadata_image_url [of m u] by simp
  with h show "getBestImageUrl f (Some c) nm t = Inr (convertIpfsUrl u)"
    by (simp add: getBestImageUrl_def noImageFields_def truthy_Some str_def)
next
  assume h: "noImageFields c \<and> \<not> truthy (cdn_json_uri c) \<and> asset_uri c = Some a \<and>
    endsWith (toLowerCase a) ''.json'' \<and>
    f (convertIpfsUrl a) = Json m \<and> \<not> fieldTruthy (m_image m) \<and> m_image_url m = Str u \<and> u \<noteq> []"
  then have "tryCatch (fetchLinkedJson f (convertIpfsUrl a)) = Inr (Some (convertIpfsUrl u))"
    using tryCatch_image [of f "convertIpfsUrl a" m] imageFromMetadata_image_url [of m u] by simp
  moreover from h have "a \<noteq> []" "\<not> isImageExtension (toLowerCase a)"
    using endsWith_json_nonempty [of a] json_not_image [of "toLowerCase a"] by simp_all
  ultimately show "getBestImageUrl f (Some c) nm t = Inr (convertIpfsUrl u)"
    using h by (simp add: getBestImageUrl_def noImageFields_def truthy_Some str_def)
next
  assume h: "noImageFields c \<and> \<not> truthy (asset_uri c) \<and> \<not> truthy (cdn_json_uri c) \<and>
    t = Some tu \<and> tu \<noteq> [] \<and>
    f (convertIpfsUrl tu) = Json m \<and> \<not> fieldTruthy (m_image m) \<and> m_image_url m = Str u \<and> u \<noteq> []"
  then have "tryCatch (fetchLinkedJson f (convertIpfsUrl tu)) = Inr (Some (convertIpfsUrl u))"
    using tryCatch_image [of f "convertIpfsUrl tu" m] imageFromMetadata_image_url [of m u] by simp
  with h show "getBestImageUrl f (Some c) nm t = Inr (convertIpfsUrl u)"
    by (simp add: getBestImageUrl_def noImageFields_def truthy_Some str_def)
next
  assume "noImageFields c \<and> \<not> truthy (asset_uri c) \<and> \<not> truthy (cdn_json_uri c) \<and> \<not> truthy t"
  then show "getBestImageUrl f (Some c) nm t = Inr []"
    by (simp add: getBestImageUrl_def noImageFields_def)
next
  assume h: "listingToNFT e i l = Inr n \<and>
    (td_cdn_asset_uris (tokenDataOf l) = None \<or>
     getBestImageUrl (fetch e) (td_cdn_asset_uris (tokenDataOf l))
       (str (orElse (l_token_name l) (td_token_name (tokenDataOf l))))
       (td_token_uri (tokenDataOf l)) = Inr [])"
  have none: "(if td_cdn_asset_uris (tokenDataOf l) \<noteq> None
               then getBestImageUrl (fetch e) (td_cdn_asset_uris (tokenDataOf l))
                      (str (orElse (l_token_name l) (td_token_name (tokenDataOf l))))
                      (td_token_uri (tokenDataOf l))
               else Inr []) = Inr []"
    using h by auto
  have img: "image_url n = placeholderUrl (orDefault (l_token_name l) (randomId e i))"
    and nm: "name n = orDefault (orElse (l_token_name l) (td_token_name (tokenDataOf l)))
                               (''NFT #'' @ orDefault (l_listing_id l) ''Unknown'')"
    using h none by (auto simp: listingToNFT_def Let_def split: option.splits)
  show "image_url n = placeholderUrl (orDefault (l_token_name l) (randomId e i))"
    by (rule img)
  show "name n = str (l_token_name l)" if "truthy (l_token_name l)"
    using that nm by (auto simp: orDefault_def orElse_def truthy_def str_def split: option.splits)
  show "image_url n = ''https://via.placeholder.com/500x500?text='' @ encodeURIComponent (name n)"
    if "truthy (l_token_name l)"
    using that nm img
    by (auto simp: orDefault_def orElse_def truthy_def str_def placeholderUrl_def split: option.splits)
qed

theorem image_resolution_postcondition_witness:
  "getBestImageUrl exampleFetch (Some (noUris\<lparr>asset_uri := Some ''ipfs://QmCat/cat.PNG''\<rparr>))
     ''Cool Cat #1'' None = Inr ''https://ipfs.io/ipfs/QmCat/cat.PNG'' \<and>
   getBestImageUrl exampleFetch (Some (noUris\<lparr>cdn_json_uri := Some ''https://cdn.example/dog.json''\<rparr>))
     ''Dog'' None = Inr ''https://ipfs.io/ipfs/QmDog'' \<and>
   getBestImageUrl exampleFetch (Some (noUris\<lparr>asset_uri := Some ''https://cdn.example/dog.json''\<rparr>))
     ''Dog'' None = Inr ''https://ipfs.io/ipfs/QmDog'' \<and>
   getBestImageUrl exampleFetch (Some noUris) ''Dog'' (Some ''https://cdn.example/dog.json'') =
     Inr ''https://ipfs.io/ipfs/QmDog'' \<and>
   getBestImageUrl exampleFetch (Some noUris) ''Dog'' None = Inr [] \<and>
   (\<exists>n. listingToNFT exampleEnv 0 emuListing = Inr n \<and> name n = ''Emu #2'' \<and>
        image_url n = ''https://via.placeholder.com/500x500?text=Emu%20%232'')"
proof -
  have "listingDateParses exampleEnv emuListing"
    by (simp add: listingDateParses_def emuListing_def bareListing_def truthy_def)
  then obtain n where n: "listingToNFT exampleEnv 0 emuListing = Inr n"
    using listingToNFT_returns by blast
  have emu: "td_cdn_asset_uris (tokenDataOf emuListing) = None" "truthy (l_token_name emuListing)"
    "str (l_token_name emuListing) = ''Emu #2''"
    by (simp_all add: emuListing_def bareListing_def tokenDataOf_def emptyTokenData_def truthy_def str_def)
  have enc: "encodeURIComponent ''Emu #2'' = ''Emu%20%232''"
    by (simp add: encode_defs string_defs)
  have ext: "isImageExtension (toLowerCase ''ipfs://QmCat/cat.PNG'')"
    by (simp add: isImageExtension_def string_defs)
  have conv: "convertIpfsUrl ''ipfs://QmCat/cat.PNG'' = ''https://ipfs.io/ipfs/QmCat/cat.PNG''"
    "convertIpfsUrl ''ipfs://QmDog'' = ''https://ipfs.io/ipfs/QmDog''"
    by (simp_all add: convertIpfsUrl_def)
  have dog: "exampleFetch ''https://cdn.example/dog.json'' = Json (noMetadata\<lparr>m_image_url := Str ''ipfs://QmDog''\<rparr>)"
    by (simp add: exampleFetch_def)
  have flds: "asset_uri (noUris\<lparr>asset_uri := Some ''ipfs://QmCat/cat.PNG''\<rparr>) = Some ''ipfs://QmCat/cat.PNG''"
    "\<not> truthy (asset_uri (noUris\<lparr>cdn_json_uri := Some ''https://cdn.example/dog.json''\<rparr>))"
    "cdn_json_uri (noUris\<lparr>cdn_json_uri := Some ''https://cdn.example/dog.json''\<rparr>) = Some ''https://cdn.example/dog.json''"
    "\<not> fieldTruthy (m_image (noMetadata\<lparr>m_image_url := Str ''ipfs://QmDog''\<rparr>))"
    "m_image_url (noMetadata\<lparr>m_image_url := Str ''ipfs://QmDog''\<rparr>) = Str ''ipfs://QmDog''"
    by (simp_all add: noUris_def noMetadata_def truthy_def fieldTruthy_def)
  have a: "getBestImageUrl exampleFetch (Some (noUris\<lparr>asset_uri := Some ''ipfs://QmCat/cat.PNG''\<rparr>))
     ''Cool Cat #1'' None = Inr ''https://ipfs.io/ipfs/QmCat/cat.PNG''"
    using image_resolution_postcondition [where c = "noUris\<lparr>asset_uri := Some ''ipfs://QmCat/cat.PNG''\<rparr>"
        and a = "''ipfs://QmCat/cat.PNG''" and f = exampleFetch and nm = "''Cool Cat #1''" and t = None
        and j = "[]" and m = noMetadata and u = "[]" and tu = "[]"
        and e = exampleEnv and i = 0 and l = emuListing and n = n]
    by (simp add: ext conv noUris_def noImageFields_def truthy_def)
  have b: "getBestImageUrl exampleFetch (Some (noUris\<lparr>cdn_json_uri := Some ''https://cdn.example/dog.json''\<rparr>))
     ''Dog'' None = Inr ''https://ipfs.io/ipfs/QmDog''"
    using image_resolution_postcondition [where c = "noUris\<lparr>cdn_json_uri := Some ''https://cdn.example/dog.json''\<rparr>"
        and j = "''https://cdn.example/dog.json''" and f = exampleFetch and nm = "''Dog''" and t = None
        and m = "noMetadata\<lparr>m_image_url := Str ''ipfs://QmDog''\<rparr>" and u = "''ipfs://QmDog''"
        and a = "[]" and tu = "[]" and e = exampleEnv and i = 0 and l = emuListing and n = n]
    by (simp add: dog conv noUris_def noMetadata_def noImageFields_def truthy_def fieldTruthy_def)
  have conv_dog: "convertIpfsUrl ''https://cdn.example/dog.json'' = ''https://cdn.example/dog.json''"
    by (simp add: convertIpfsUrl_def)
  have ends: "endsWith (toLowerCase ''https://cdn.example/dog.json'') ''.json''"
    by (simp add: endsWith_def string_defs)
  have b1: "getBestImageUrl exampleFetch (Some (noUris\<lparr>asset_uri := Some ''https://cdn.example/dog.json''\<rparr>))
     ''Dog'' None = Inr ''https://ipfs.io/ipfs/QmDog''"
    using image_resolution_postcondition [where c = "noUris\<lparr>asset_uri := Some ''https://cdn.example/dog.json''\<rparr>"
        and a = "''https://cdn.example/dog.json''" and f = exampleFetch and nm = "''Dog''" and t = None
        and m = "noMetadata\<lparr>m_image_url := Str ''ipfs://QmDog''\<rparr>" and u = "''ipfs://QmDog''"
        and j = "[]" and tu = "[]" and e = exampleEnv and i = 0 and l = emuListing and n = n]
    by (simp add: dog conv conv_dog ends noUris_def noMetadata_def noImageFields_def truthy_def
        fieldTruthy_def)
  have b2: "getBestImageUrl exampleFetch (Some noUris) ''Dog'' (Some ''https://cdn.example/dog.json'') =
     Inr ''https://ipfs.io/ipfs/QmDog''"
    using image_resolution_postcondition [where c = noUris and f = exampleFetch and nm = "''Dog''"
        and t = "Some ''https://cdn.example/dog.json''" and tu = "''https://cdn.example/dog.json''"
        and m = "noMetadata\<lparr>m_image_url := Str ''ipfs://QmDog''\<rparr>" and u = "''ipfs://QmDog''"
        and a = "[]" and j = "[]" and e = exampleEnv and i = 0 and l = emuListing and n = n]
    by (simp add: dog conv conv_dog noUris_def noMetadata_def noImageFields_def truthy_def fieldTruthy_def)
  have b3: "getBestImageUrl exampleFetch (Some noUris) ''Dog'' None = Inr []"
    using image_resolution_postcondition [where c = noUris and f = exampleFetch and nm = "''Dog''"
        and t = None and tu = "[]" and m = noMetadata and u = "[]"
        and a = "[]" and j = "[]" and e = exampleEnv and i = 0 and l = emuListing and n = n]
    by (simp add: noUris_def noImageFields_def truthy_def)
  have c: "name n = ''Emu #2'' \<and> image_url n = ''https://via.placeholder.com/500x500?text=Emu%20%232''"
  proof -
    from image_resolution_postcondition [where e = exampleEnv and i = 0 and l = emuListing and n = n
        and c = noUris and a = "[]" and f = exampleFetch and nm = "[]" and t = None
        and j = "[]" and m = noMetadata and u = "[]" and tu = "[]"] n emu(1,2)
    have "name n = str (l_token_name emuListing)"
      and "image_url n = ''https://via.placeholder.com/500x500?text='' @ encodeURIComponent (name n)"
      by blast+
    then show ?thesis
      by (simp add: emu(3) enc)
  qed
  from a b b1 b2 b3 c n show ?thesis by blast
qed

text \<open>
  C1 as it is stated fails twice. The row \<open>bobListing\<close> has no image source and its name
  stands in the token data only: its display name is \<^verbatim>\<open>Bob\<close>, and its placeholder
  encodes the random identifier, not the name. The document behind \<^verbatim>\<open>both.json\<close> has
  an \<^verbatim>\<open>image_url\<close> field, and the record resolves to its \<^verbatim>\<open>image\<close> field.
\<close>

theorem image_resolution_counterexample:
  "td_cdn_asset_uris (tokenDataOf bobListing) = None \<and>
   listingToNFT exampleEnv 2 bobListing = Inr bobNFT \<and>
   name bobNFT = ''Bob'' \<and>
   image_url bobNFT = ''https://via.placeholder.com/500x500?text=k3x9q2'' \<and>
   \<not> str_includes (image_url bobNFT) (encodeURIComponent (name bobNFT)) \<and>
   exampleFetch ''https://a.example/both.json'' =
     Json (noMetadata\<lparr>m_image := Str ''https://a.example/first.png'',
                      m_image_url := Str ''https://a.example/second.png''\<rparr>) \<and>
   getBestImageUrl exampleFetch (Some (noUris\<lparr>cdn_json_uri := Some ''https://a.example/both.json''\<rparr>))
     ''NFT'' None = Inr ''https://a.example/first.png''"
proof -
  have enc: "encodeURIComponent ''Bob'' = ''Bob''"
    by (simp add: encode_defs string_defs)
  have both: "exampleFetch ''https://a.example/both.json'' =
     Json (noMetadata\<lparr>m_image := Str ''https://a.example/first.png'',
                      m_image_url := Str ''https://a.example/second.png''\<rparr>)"
    by (simp add: exampleFetch_def)
  have "getBestImageUrl exampleFetch (Some (noUris\<lparr>cdn_json_uri := Some ''https://a.example/both.json''\<rparr>))
     ''NFT'' None = Inr ''https://a.example/first.png''"
    by (simp add: getBestImageUrl_def noUris_def js_defs both tryCatch_def fetchLinkedJson_def
        imageFromMetadata_def noMetadata_def fieldTruthy_def returnConverted_def convertIpfsUrl_def)
  moreover have "td_cdn_asset_uris (tokenDataOf bobListing) = None"
    by (simp add: tokenDataOf_def bobListing_def bareListing_def emptyTokenData_def)
  moreover have "name bobNFT = ''Bob''"
    "image_url bobNFT = ''https://via.placeholder.com/500x500?text=k3x9q2''"
    "\<not> str_includes (image_url bobNFT) (encodeURIComponent (name bobNFT))"
    by (simp_all add: bobNFT_def enc)
  ultimately show ?thesis
    using bob_nft [of 2] both by simp
qed

text \<open>
  C2 (failures of the linked JSON fetches), as the code has it. The function always
  returns. When a fetch of the sixth step gives no image, the later steps run, each under
  its guard: (1) after the CDN JSON URI, with no asset URI, the token URI is fetched and
  its image returned; (2) with no CDN JSON URI, after the \<^verbatim>\<open>.json\<close> asset URI the token
  URI is fetched and its image returned; (3) when every fetch that runs gives no image, an
  asset URI that does not end in \<^verbatim>\<open>.json\<close> is returned directly; (4) with a CDN JSON
  URI and a \<^verbatim>\<open>.json\<close> asset URI both set, neither the asset URI nor the token URI is
  fetched after the failure, and the result is the empty string.
\<close>

theorem linked_json_failure_continues:
  "(\<exists>v. getBestImageUrl f c0 nm t = Inr v) \<and>
   (noImageFields c \<and> cdn_json_uri c = Some j \<and> j \<noteq> [] \<and> noImageFrom (f j) \<and>
    \<not> truthy (asset_uri c) \<and> t = Some tu \<and> tu \<noteq> [] \<and>
    f (convertIpfsUrl tu) = Json m \<and> imageFromMetadata m = Inr (Some u) \<longrightarrow>
      getBestImageUrl f (Some c) nm t = Inr u) \<and>
   (noImageFields c \<and> \<not> truthy (cdn_json_uri c) \<and> asset_uri c = Some a \<and>
    endsWith (toLowerCase a) ''.json'' \<and> noImageFrom (f (convertIpfsUrl a)) \<and>
    t = Some tu \<and> tu \<noteq> [] \<and>
    f (convertIpfsUrl tu) = Json m \<and> imageFromMetadata m = Inr (Some u) \<longrightarrow>
      getBestImageUrl f (Some c) nm t = Inr u) \<and>
   (noImageFields c \<and> asset_uri c = Some a \<and> a \<noteq> [] \<and> \<not> isImageExtension (toLowerCase a) \<and>
    \<not> endsWith (toLowerCase a) ''.json'' \<and>
    (truthy (cdn_json_uri c) \<longrightarrow> noImageFrom (f (str (cdn_json_uri c)))) \<and>
    (truthy t \<and> \<not> truthy (cdn_json_uri c) \<longrightarrow> noImageFrom (f (convertIpfsUrl (str t)))) \<longrightarrow>
      getBestImageUrl f (Some c) nm t = Inr (convertIpfsUrl a)) \<and>
   (noImageFields c \<and> cdn_json_uri c = Some j \<and> j \<noteq> [] \<and> noImageFrom (f j) \<and>
    asset_uri c = Some a \<and> endsWith (toLowerCase a) ''.json'' \<longrightarrow>
      getBestImageUrl f (Some c) nm t = Inr [])"
proof (intro conjI impI)
  show "\<exists>v. getBestImageUrl f c0 nm t = Inr v"
    by (rule getBestImageUrl_returns)
next
  assume h: "noImageFields c \<and> cdn_json_uri c = Some j \<and> j \<noteq> [] \<and> noImageFrom (f j) \<and>
    \<not> truthy (asset_uri c) \<and> t = Some tu \<and> tu \<noteq> [] \<and>
    f (convertIpfsUrl tu) = Json m \<and> imageFromMetadata m = Inr (Some u)"
  then have "tryCatch (fetchLinkedJson f j) = Inr None"
    and "tryCatch (fetchLinkedJson f (convertIpfsUrl tu)) = Inr (Some u)"
    using tryCatch_noImage [of f j] tryCatch_image [of f "convertIpfsUrl tu" m u] by simp_all
  with h show "getBestImageUrl f (Some c) nm t = Inr u"
    by (simp add: getBestImageUrl_def noImageFields_def truthy_Some str_def)
next
  assume h: "noImageFields c \<and> \<not> truthy (cdn_json_uri c) \<and> asset_uri c = Some a \<and>
    endsWith (toLowerCase a) ''.json'' \<and> noImageFrom (f (convertIpfsUrl a)) \<and>
    t = Some tu \<and> tu \<noteq> [] \<and>
    f (convertIpfsUrl tu) = Json m \<and> imageFromMetadata m = Inr (Some u)"
  then have "tryCatch (fetchLinkedJson f (convertIpfsUrl a)) = Inr None"
    and "tryCatch (fetchLinkedJson f (convertIpfsUrl tu)) = Inr (Some u)"
    and "a \<noteq> []" and "\<not> isImageExtension (toLowerCase a)"
    using tryCatch_noImage [of f "convertIpfsUrl a"] tryCatch_image [of f "convertIpfsUrl tu" m u]
      endsWith_json_nonempty [of a] json_not_image [of "toLowerCase a"]
    by simp_all
  with h show "getBestImageUrl f (Some c) nm t = Inr u"
    by (simp add: getBestImageUrl_def noImageFields_def truthy_Some str_def)
next
  assume h: "noImageFields c \<and> asset_uri c = Some a \<and> a \<noteq> [] \<and> \<not> isImageExtension (toLowerCase a) \<and>
    \<not> endsWith (toLowerCase a) ''.json'' \<and>
    (truthy (cdn_json_uri c) \<longrightarrow> noImageFrom (f (str (cdn_json_uri c)))) \<and>
    (truthy t \<and> \<not> truthy (cdn_json_uri c) \<longrightarrow> noImageFrom (f (convertIpfsUrl (str t))))"
  then have "truthy (cdn_json_uri c) \<Longrightarrow> tryCatch (fetchLinkedJson f (str (cdn_json_uri c))) = Inr None"
    and "truthy t \<Longrightarrow> \<not> truthy (cdn_json_uri c) \<Longrightarrow>
         tryCatch (fetchLinkedJson f (convertIpfsUrl (str t))) = Inr None"
    using tryCatch_noImage by simp_all
  with h show "getBestImageUrl f (Some c) nm t = Inr (convertIpfsUrl a)"
    by (simp add: getBestImageUrl_def noImageFields_def truthy_Some str_def)
next
  assume h: "noImageFields c \<and> cdn_json_uri c = Some j \<and> j \<noteq> [] \<and> noImageFrom (f j) \<and>
    asset_uri c = Some a \<and> endsWith (toLowerCase a) ''.json''"
  then have "tryCatch (fetchLinkedJson f j) = Inr None"
    and "a \<noteq> []" and "\<not> isImageExtension (toLowerCase a)"
    using tryCatch_noImage [of f j] endsWith_json_nonempty [of a] json_not_image [of "toLowerCase a"]
    by simp_all
  with h show "getBestImageUrl f (Some c) nm t = Inr []"
    by (simp add: getBestImageUrl_def noImageFields_def truthy_Some str_def)
qed

theorem linked_json_failure_continues_witness:
  "getBestImageUrl exampleFetch (Some (noUris\<lparr>cdn_json_uri := Some ''https://cdn.example/missing.json''\<rparr>))
     ''NFT'' (Some ''https://a.example/token.json'') = Inr ''https://a.example/token.png'' \<and>
   getBestImageUrl exampleFetch (Some (noUris\<lparr>asset_uri := Some ''https://a.example/gone.json''\<rparr>))
     ''NFT'' (Some ''https://a.example/token.json'') = Inr ''https://a.example/token.png'' \<and>
   getBestImageUrl exampleFetch (Some (noUris\<lparr>asset_uri := Some ''https://a.example/page''\<rparr>))
     ''NFT'' (Some ''https://a.example/gone.json'') = Inr ''https://a.example/page'' \<and>
   getBestImageUrl exampleFetch
     (Some (noUris\<lparr>asset_uri := Some ''https://a.example/gone.json'',
                    cdn_json_uri := Some ''https://cdn.example/missing.json''\<rparr>))
     ''NFT'' (Some ''https://a.example/token.json'') = Inr []"
proof -
  have conv: "convertIpfsUrl ''https://a.example/token.json'' = ''https://a.example/token.json''"
    "convertIpfsUrl ''https://a.example/gone.json'' = ''https://a.example/gone.json''"
    "convertIpfsUrl ''https://a.example/page'' = ''https://a.example/page''"
    by (simp_all add: convertIpfsUrl_def)
  have no: "noImageFrom (exampleFetch ''https://cdn.example/missing.json'')"
    "noImageFrom (exampleFetch ''https://a.example/gone.json'')"
    by (simp_all add: noImageFrom_def fetch_missing fetch_gone)
  have ext: "\<not> isImageExtension (toLowerCase ''https://a.example/page'')"
    "\<not> endsWith (toLowerCase ''https://a.example/page'') ''.json''"
    "endsWith (toLowerCase ''https://a.example/gone.json'') ''.json''"
    by (simp_all add: isImageExtension_def string_defs)
  have after_cdn: "getBestImageUrl exampleFetch
      (Some (noUris\<lparr>cdn_json_uri := Some ''https://cdn.example/missing.json''\<rparr>))
      ''NFT'' (Some ''https://a.example/token.json'') = Inr ''https://a.example/token.png''"
    using linked_json_failure_continues [where f = exampleFetch
        and c = "noUris\<lparr>cdn_json_uri := Some ''https://cdn.example/missing.json''\<rparr>"
        and j = "''https://cdn.example/missing.json''" and t = "Some ''https://a.example/token.json''"
        and tu = "''https://a.example/token.json''"
        and m = "noMetadata\<lparr>m_image := Str ''https://a.example/token.png''\<rparr>"
        and u = "''https://a.example/token.png''" and nm = "''NFT''"
        and a = "[]" and ?c0.0 = None]
    by (simp add: conv no noUris_def noImageFields_def fetch_token token_image truthy_def)
  have after_asset: "getBestImageUrl exampleFetch
      (Some (noUris\<lparr>asset_uri := Some ''https://a.example/gone.json''\<rparr>))
      ''NFT'' (Some ''https://a.example/token.json'') = Inr ''https://a.example/token.png''"
    using linked_json_failure_continues [where f = exampleFetch
        and c = "noUris\<lparr>asset_uri := Some ''https://a.example/gone.json''\<rparr>"
        and a = "''https://a.example/gone.json''" and t = "Some ''https://a.example/token.json''"
        and tu = "''https://a.example/token.json''"
        and m = "noMetadata\<lparr>m_image := Str ''https://a.example/token.png''\<rparr>"
        and u = "''https://a.example/token.png''" and nm = "''NFT''"
        and j = "[]" and ?c0.0 = None]
    by (simp add: conv no ext noUris_def noImageFields_def fetch_token token_image truthy_def)
  have direct: "getBestImageUrl exampleFetch
      (Some (noUris\<lparr>asset_uri := Some ''https://a.example/page''\<rparr>))
      ''NFT'' (Some ''https://a.example/gone.json'') = Inr ''https://a.example/page''"
    using linked_json_failure_continues [where f = exampleFetch
        and c = "noUris\<lparr>asset_uri := Some ''https://a.example/page''\<rparr>"
        and a = "''https://a.example/page''" and t = "Some ''https://a.example/gone.json''"
        and nm = "''NFT''" and ?c0.0 = None and j = "[]" and tu = "[]" and m = noMetadata
        and u = "[]"]
    by (simp add: conv no ext noUris_def noImageFields_def truthy_def str_def)
  have gated: "getBestImageUrl exampleFetch
      (Some (noUris\<lparr>asset_uri := Some ''https://a.example/gone.json'',
                     cdn_json_uri := Some ''https://cdn.example/missing.json''\<rparr>))
      ''NFT'' (Some ''https://a.example/token.json'') = Inr []"
    using linked_json_failure_continues [where f = exampleFetch
        and c = "noUris\<lparr>asset_uri := Some ''https://a.example/gone.json'',
                          cdn_json_uri := Some ''https://cdn.example/missing.json''\<rparr>"
        and a = "''https://a.example/gone.json''" and j = "''https://cdn.example/missing.json''"
        and t = "Some ''https://a.example/token.json''" and nm = "''NFT''" and ?c0.0 = None
        and tu = "[]" and m = noMetadata and u = "[]"]
    by (simp add: no ext noUris_def noImageFields_def truthy_def)
  from after_cdn after_asset direct gated show ?thesis
    by (intro conjI)
qed

text \<open>
  C2 as it is stated fails on a record with a CDN JSON URI whose fetch is rejected, a
  \<^verbatim>\<open>.json\<close> asset URI and a token URI whose document has an image: the token URI is a
  usable source that remains, it is never fetched, and the result is the empty string.
\<close>

theorem token_uri_not_consulted_counterexample:
  "exampleFetch ''https://cdn.example/missing.json'' = FetchRejects \<and>
   fetchLinkedJson exampleFetch (convertIpfsUrl ''https://a.example/token.json'') =
     Inr (Some ''https://a.example/token.png'') \<and>
   getBestImageUrl exampleFetch
     (Some (noUris\<lparr>asset_uri := Some ''https://a.example/meta.json'',
                    cdn_json_uri := Some ''https://cdn.example/missing.json''\<rparr>))
     ''NFT'' (Some ''https://a.example/token.json'') = Inr []"
  by (simp add: fetch_missing fetch_token token_image fetchLinkedJson_def convertIpfsUrl_def
      getBestImageUrl_def noUris_def js_defs string_defs isImageExtension_def tryCatch_def)


end
